theory Spec2Isabelle
  imports Complex_Main
begin

section \<open>Data model of the editor (src/App.tsx)\<close>

text \<open>
  A JavaScript string is a list of characters; a character stands for a code unit below
  256, so white space and line terminators beyond that range are not represented. A
  \<open>File\<close> is kept as the three arguments its constructor receives in
  \<open>dataURLtoFile\<close>: the bytes, the file name and the MIME type.
\<close>

record js_file =
  file_bits :: "nat list"
  file_name :: string
  file_type :: string

text \<open>
  JavaScript numbers that come out of a division: a finite value, the two infinities,
  or NaN. A finite number is the real it denotes; every arithmetic operation rounds its
  exact result to binary64 (see \<open>b64\<close> below). Magnitudes stay below \<open>2^1024\<close>, as
  the coordinates and sizes of a page do, so no finite operation overflows, and a zero
  divisor is the positive zero, as the size of a rendered element is.
\<close>

datatype jsnum = Fin real | PosInf | NegInf | NaN

record point =
  px :: jsnum
  py :: jsnum

datatype tab = Retouch | Adjust | Filters | Crop

datatype crop_unit = Px | Percent

text \<open>\<open>Crop\<close> and \<open>PixelCrop\<close> of react-image-crop: a rectangle and its unit.\<close>

record crop_rect =
  crop_x :: real
  crop_y :: real
  crop_width :: real
  crop_height :: real
  crop_unit :: crop_unit

text \<open>
  Messages of thrown \<open>Error\<close> objects, one constructor per message template of the
  sources, with the values the template interpolates.
\<close>

datatype err_message =
    InvalidDataUrl
  | MimeParseFailed
  | RequestBlocked string string
  | UnexpectedStop string string
  | NoImageReturned string "string option"
  | HostError string

text \<open>A thrown value is an \<open>Error\<close> with a message, or something else.\<close>

datatype thrown = Error err_message | NonError

text \<open>\<open>err instanceof Error ? err.message : 'Une erreur inconnue est survenue.'\<close>\<close>

datatype shown_message = Message err_message | UnknownError

fun errorMessage :: "thrown \<Rightarrow> shown_message" where
  "errorMessage (Error m) = Message m"
| "errorMessage NonError = UnknownError"

text \<open>The texts given to \<open>setError\<close>, one constructor per call site.\<close>

datatype ui_error =
    NoImageToEdit
  | EmptyPrompt
  | NoHotspot
  | GenerationFailed shown_message
  | NoImageForFilter
  | FilterFailed shown_message
  | NoImageForAdjustment
  | AdjustmentFailed shown_message
  | NoCropSelected
  | CropContextFailed

text \<open>The \<open>useState\<close> cells of the \<open>App\<close> component.\<close>

record app_state =
  history :: "js_file list"
  historyIndex :: int
  prompt :: string
  isLoading :: bool
  error :: "ui_error option"
  editHotspot :: "point option"
  displayHotspot :: "point option"
  activeTab :: tab
  crop :: "crop_rect option"
  completedCrop :: "crop_rect option"
  aspect :: "real option"
  isComparing :: bool
  isSideBySide :: bool

text \<open>The initial values of the cells.\<close>

definition initial_state :: app_state where
  "initial_state =
     \<lparr>history = [], historyIndex = - 1, prompt = [], isLoading = False, error = None,
      editHotspot = None, displayHotspot = None, activeTab = Retouch, crop = None,
      completedCrop = None, aspect = None, isComparing = False, isSideBySide = False\<rparr>"

section \<open>The edit history\<close>

text \<open>
  \<open>xs.slice(0, end)\<close>: a negative \<open>end\<close> counts from the end of the array, and the
  bound is clamped to the array.
\<close>

definition js_slice0 :: "'a list \<Rightarrow> int \<Rightarrow> 'a list" where
  "js_slice0 xs e =
     (let len = int (length xs);
          k = (if e < 0 then max (len + e) 0 else min e len)
      in take (nat k) xs)"

text \<open>\<open>xs[i] ?? null\<close>: an index outside the array reads \<open>undefined\<close>.\<close>

definition js_index :: "'a list \<Rightarrow> int \<Rightarrow> 'a option" where
  "js_index xs i = (if 0 \<le> i \<and> i < int (length xs) then Some (xs ! nat i) else None)"

definition currentImage :: "app_state \<Rightarrow> js_file option" where
  "currentImage s = js_index (history s) (historyIndex s)"

definition originalImage :: "app_state \<Rightarrow> js_file option" where
  "originalImage s = js_index (history s) 0"

definition canUndo :: "app_state \<Rightarrow> bool" where
  "canUndo s = (historyIndex s > 0)"

definition canRedo :: "app_state \<Rightarrow> bool" where
  "canRedo s = (historyIndex s < int (length (history s)) - 1)"

text \<open>
  \<open>addImageToHistory\<close> is a callback that closes over \<open>history\<close> and \<open>historyIndex\<close>
  of the render that created it: \<open>rendered\<close> is that state, and \<open>s\<close> is the state the
  setters act on. A synchronous call has \<open>rendered = s\<close>; after an \<open>await\<close> the two
  may differ.
\<close>

definition addImageToHistory :: "app_state \<Rightarrow> js_file \<Rightarrow> app_state \<Rightarrow> app_state" where
  "addImageToHistory rendered newImageFile s =
     (let newHistory = js_slice0 (history rendered) (historyIndex rendered + 1) @ [newImageFile]
      in s\<lparr>history := newHistory,
            historyIndex := int (length newHistory) - 1,
            crop := None,
            completedCrop := None\<rparr>)"

definition handleImageUpload :: "js_file \<Rightarrow> app_state \<Rightarrow> app_state" where
  "handleImageUpload f s =
     s\<lparr>error := None, history := [f], historyIndex := 0, editHotspot := None,
       displayHotspot := None, activeTab := Retouch, crop := None, completedCrop := None\<rparr>"

definition handleUndo :: "app_state \<Rightarrow> app_state" where
  "handleUndo s =
     (if canUndo s
      then s\<lparr>historyIndex := historyIndex s - 1, editHotspot := None, displayHotspot := None\<rparr>
      else s)"

definition handleRedo :: "app_state \<Rightarrow> app_state" where
  "handleRedo s =
     (if canRedo s
      then s\<lparr>historyIndex := historyIndex s + 1, editHotspot := None, displayHotspot := None\<rparr>
      else s)"

text \<open>
  \<open>handleReset\<close> asks \<open>window.confirm\<close> only when the history is not empty;
  \<open>confirmed\<close> is the user's answer.
\<close>

definition handleReset :: "bool \<Rightarrow> app_state \<Rightarrow> app_state" where
  "handleReset confirmed s =
     (if length (history s) > 0 \<and> confirmed
      then s\<lparr>historyIndex := 0, error := None, editHotspot := None, displayHotspot := None,
             crop := None, completedCrop := None\<rparr>
      else s)"

definition handleNewImage :: "bool \<Rightarrow> app_state \<Rightarrow> app_state" where
  "handleNewImage confirmed s =
     (if confirmed
      then s\<lparr>history := [], historyIndex := - 1, error := None, editHotspot := None,
             displayHotspot := None, crop := None, completedCrop := None\<rparr>
      else s)"

definition handleTabChange :: "tab \<Rightarrow> app_state \<Rightarrow> app_state" where
  "handleTabChange t s =
     (let s1 = s\<lparr>activeTab := t\<rparr>
      in if isSideBySide s \<and> (t = Retouch \<or> t = Crop) then s1\<lparr>isSideBySide := False\<rparr> else s1)"

section \<open>Strings and data URLs\<close>

text \<open>White space as \<open>String.prototype.trim\<close> sees it, below code unit 256.\<close>

definition js_whitespace :: "char \<Rightarrow> bool" where
  "js_whitespace c =
     (c \<in> set [CHR 0x09, CHR 0x0A, CHR 0x0B, CHR 0x0C, CHR 0x0D, CHR 0x20, CHR 0xA0])"

definition js_trim :: "string \<Rightarrow> string" where
  "js_trim s = rev (dropWhile js_whitespace (rev (dropWhile js_whitespace s)))"

text \<open>\<open>s.split(sep)\<close> for a separator of one character: never an empty array.\<close>

fun js_split :: "char \<Rightarrow> string \<Rightarrow> string list" where
  "js_split sep [] = [[]]"
| "js_split sep (c # cs) =
     (if c = sep then [] # js_split sep cs
      else (case js_split sep cs of
              [] \<Rightarrow> [[c]]
            | w # ws \<Rightarrow> (c # w) # ws))"

text \<open>
  The regular expression \<open>/:(.*?);/\<close>. \<open>lazy_group\<close> reads the group after a colon:
  the characters up to the next semicolon, none of them a line terminator.
  \<open>mime_match\<close> tries the colons from left to right and returns the group of the first
  match.
\<close>

definition line_terminator :: "char \<Rightarrow> bool" where
  "line_terminator c = (c = CHR 0x0A \<or> c = CHR 0x0D)"

fun lazy_group :: "string \<Rightarrow> string option" where
  "lazy_group [] = None"
| "lazy_group (c # cs) =
     (if c = CHR '';'' then Some []
      else if line_terminator c then None
      else map_option ((#) c) (lazy_group cs))"

fun mime_match :: "string \<Rightarrow> string option" where
  "mime_match [] = None"
| "mime_match (c # cs) =
     (if c = CHR '':'' then (case lazy_group cs of Some g \<Rightarrow> Some g | None \<Rightarrow> mime_match cs)
      else mime_match cs)"

text \<open>
  The loop \<open>while (n--) u8arr[n] = bstr.charCodeAt(n)\<close> over a zero-filled
  \<open>Uint8Array\<close>, which keeps a number modulo 256.
\<close>

fun fill_u8arr :: "nat \<Rightarrow> string \<Rightarrow> nat list \<Rightarrow> nat list" where
  "fill_u8arr 0 bstr u8arr = u8arr"
| "fill_u8arr (Suc n) bstr u8arr = fill_u8arr n bstr (u8arr[n := of_char (bstr ! n) mod 256])"

text \<open>
  The \<open>type\<close> of a new \<open>File\<close>: the given type in ASCII lower case, or the empty
  string when a character lies outside the range U+0020 to U+007E.
\<close>

definition ascii_lower :: "char \<Rightarrow> char" where
  "ascii_lower c =
     (let n = (of_char c :: nat) in if 65 \<le> n \<and> n \<le> 90 then char_of (n + 32) else c)"

definition file_type_of :: "string \<Rightarrow> string" where
  "file_type_of t =
     (if list_all (\<lambda>c. 32 \<le> (of_char c :: nat) \<and> (of_char c :: nat) \<le> 126) t
      then map ascii_lower t else [])"

text \<open>
  \<open>dataURLtoFile\<close>. \<open>atob\<close> is the host's base64 decoder, which throws on input that
  is not base64.
\<close>

definition dataURLtoFile ::
  "(string \<Rightarrow> thrown + string) \<Rightarrow> string \<Rightarrow> string \<Rightarrow> thrown + js_file" where
  "dataURLtoFile atob dataurl filename =
     (let arr = js_split (CHR '','') dataurl
      in if length arr < 2 then Inl (Error InvalidDataUrl)
         else (case mime_match (arr ! 0) of
                 None \<Rightarrow> Inl (Error MimeParseFailed)
               | Some mime \<Rightarrow>
                   if mime = [] then Inl (Error MimeParseFailed)
                   else (case atob (arr ! 1) of
                           Inl e \<Rightarrow> Inl e
                         | Inr bstr \<Rightarrow>
                             Inr \<lparr>file_bits = fill_u8arr (length bstr) bstr (replicate (length bstr) 0),
                                  file_name = filename,
                                  file_type = file_type_of mime\<rparr>)))"

text \<open>The decimal text of \<open>Date.now()\<close> inside a template string.\<close>

function decimal :: "nat \<Rightarrow> string" where
  "decimal n =
     (if n < 10 then [char_of (48 + n)]
      else decimal (n div 10) @ [char_of (48 + n mod 10)])"
  by pat_completeness auto
termination
  by (relation "measure id") auto

section \<open>Edit requests\<close>

text \<open>A call of the edit service, with the arguments the handler passes.\<close>

datatype request =
    EditRequest js_file string point
  | FilterRequest js_file string
  | AdjustRequest js_file string

text \<open>
  An asynchronous handler is two steps. The first runs up to the \<open>await\<close>: it returns
  the new state and the service call it has started, if any. The second runs when the
  promise settles, with \<open>Inl\<close> for a rejection: \<open>rendered\<close> is the state of the render
  that created the handler, \<open>s\<close> the state at that moment, \<open>now\<close> the value of
  \<open>Date.now()\<close>.
\<close>

definition handleGenerate_begin :: "app_state \<Rightarrow> app_state \<times> request option" where
  "handleGenerate_begin s =
     (case currentImage s of
        None \<Rightarrow> (s\<lparr>error := Some NoImageToEdit\<rparr>, None)
      | Some img \<Rightarrow>
          if js_trim (prompt s) = [] then (s\<lparr>error := Some EmptyPrompt\<rparr>, None)
          else (case editHotspot s of
                  None \<Rightarrow> (s\<lparr>error := Some NoHotspot\<rparr>, None)
                | Some h \<Rightarrow>
                    (s\<lparr>isLoading := True, error := None\<rparr>, Some (EditRequest img (prompt s) h))))"

definition handleGenerate_resume ::
  "(string \<Rightarrow> thrown + string) \<Rightarrow> nat \<Rightarrow> app_state \<Rightarrow> thrown + string \<Rightarrow> app_state \<Rightarrow> app_state" where
  "handleGenerate_resume atob now rendered outcome s =
     (case (case outcome of
              Inl err \<Rightarrow> Inl err
            | Inr editedImageUrl \<Rightarrow>
                dataURLtoFile atob editedImageUrl (''modifiee-'' @ decimal now @ ''.png'')) of
        Inr newImageFile \<Rightarrow>
          (addImageToHistory rendered newImageFile s)
            \<lparr>editHotspot := None, displayHotspot := None, isLoading := False\<rparr>
      | Inl err \<Rightarrow>
          s\<lparr>error := Some (GenerationFailed (errorMessage err)), isLoading := False\<rparr>)"

definition handleApplyFilter_begin :: "string \<Rightarrow> app_state \<Rightarrow> app_state \<times> request option" where
  "handleApplyFilter_begin filterPrompt s =
     (case currentImage s of
        None \<Rightarrow> (s\<lparr>error := Some NoImageForFilter\<rparr>, None)
      | Some img \<Rightarrow>
          (s\<lparr>isLoading := True, error := None\<rparr>, Some (FilterRequest img filterPrompt)))"

definition handleApplyFilter_resume ::
  "(string \<Rightarrow> thrown + string) \<Rightarrow> nat \<Rightarrow> app_state \<Rightarrow> thrown + string \<Rightarrow> app_state \<Rightarrow> app_state" where
  "handleApplyFilter_resume atob now rendered outcome s =
     (case (case outcome of
              Inl err \<Rightarrow> Inl err
            | Inr filteredImageUrl \<Rightarrow>
                dataURLtoFile atob filteredImageUrl (''filtree-'' @ decimal now @ ''.png'')) of
        Inr newImageFile \<Rightarrow> (addImageToHistory rendered newImageFile s)\<lparr>isLoading := False\<rparr>
      | Inl err \<Rightarrow>
          s\<lparr>error := Some (FilterFailed (errorMessage err)), isLoading := False\<rparr>)"

definition handleApplyAdjustment_begin :: "string \<Rightarrow> app_state \<Rightarrow> app_state \<times> request option" where
  "handleApplyAdjustment_begin adjustmentPrompt s =
     (case currentImage s of
        None \<Rightarrow> (s\<lparr>error := Some NoImageForAdjustment\<rparr>, None)
      | Some img \<Rightarrow>
          (s\<lparr>isLoading := True, error := None\<rparr>, Some (AdjustRequest img adjustmentPrompt)))"

definition handleApplyAdjustment_resume ::
  "(string \<Rightarrow> thrown + string) \<Rightarrow> nat \<Rightarrow> app_state \<Rightarrow> thrown + string \<Rightarrow> app_state \<Rightarrow> app_state" where
  "handleApplyAdjustment_resume atob now rendered outcome s =
     (case (case outcome of
              Inl err \<Rightarrow> Inl err
            | Inr adjustedImageUrl \<Rightarrow>
                dataURLtoFile atob adjustedImageUrl (''ajustee-'' @ decimal now @ ''.png'')) of
        Inr newImageFile \<Rightarrow> (addImageToHistory rendered newImageFile s)\<lparr>isLoading := False\<rparr>
      | Inl err \<Rightarrow>
          s\<lparr>error := Some (AdjustmentFailed (errorMessage err)), isLoading := False\<rparr>)"

section \<open>Controls of the page\<close>

text \<open>
  A button whose \<open>disabled\<close> attribute holds sends no click to its handler, and a
  panel that is not rendered has no button. The page shows the editor only when there is
  a current image, and the retouch panel only on the retouch tab.
\<close>

definition generateButton_disabled :: "app_state \<Rightarrow> bool" where
  "generateButton_disabled s = (isLoading s \<or> js_trim (prompt s) = [] \<or> editHotspot s = None)"

definition generateButton_click :: "app_state \<Rightarrow> app_state \<times> request option" where
  "generateButton_click s =
     (if currentImage s = None \<or> activeTab s \<noteq> Retouch \<or> generateButton_disabled s
      then (s, None)
      else handleGenerate_begin s)"

text \<open>The state of \<open>AdjustmentPanel\<close> (src/components/AdjustmentPanel.tsx).\<close>

record adjustment_panel =
  selectedPresetPrompt :: "string option"
  customPrompt :: string

text \<open>\<open>selectedPresetPrompt || customPrompt\<close>: \<open>null\<close> and the empty string are falsy.\<close>

definition activePrompt :: "adjustment_panel \<Rightarrow> string" where
  "activePrompt p =
     (case selectedPresetPrompt p of
        None \<Rightarrow> customPrompt p
      | Some q \<Rightarrow> if q = [] then customPrompt p else q)"

definition handlePresetClick :: "string \<Rightarrow> adjustment_panel \<Rightarrow> adjustment_panel" where
  "handlePresetClick q p = p\<lparr>selectedPresetPrompt := Some q, customPrompt := []\<rparr>"

definition handleCustomChange :: "string \<Rightarrow> adjustment_panel \<Rightarrow> adjustment_panel" where
  "handleCustomChange v p = p\<lparr>customPrompt := v, selectedPresetPrompt := None\<rparr>"

text \<open>\<open>handleApply\<close> calls \<open>onApplyAdjustment\<close>, which \<open>App\<close> binds to \<open>handleApplyAdjustment\<close>.\<close>

definition handleApply :: "adjustment_panel \<Rightarrow> app_state \<Rightarrow> app_state \<times> request option" where
  "handleApply p s =
     (if activePrompt p \<noteq> [] then handleApplyAdjustment_begin (activePrompt p) s else (s, None))"

text \<open>
  The apply button exists when \<open>activePrompt\<close> is not empty, on the adjustment tab, and
  is disabled while loading or when the prompt is blank.
\<close>

definition applyAdjustmentButton_click ::
  "adjustment_panel \<Rightarrow> app_state \<Rightarrow> app_state \<times> request option" where
  "applyAdjustmentButton_click p s =
     (if currentImage s = None \<or> activeTab s \<noteq> Adjust \<or> activePrompt p = []
         \<or> isLoading s \<or> js_trim (activePrompt p) = []
      then (s, None)
      else handleApply p s)"

text \<open>The tab buttons are disabled while loading.\<close>

definition tabButton_click :: "tab \<Rightarrow> app_state \<Rightarrow> app_state" where
  "tabButton_click t s = (if currentImage s = None \<or> isLoading s then s else handleTabChange t s)"

section \<open>Pointer position to native pixels\<close>

text \<open>
  Rounding a real to binary64, to the nearest value and to the even one on a tie.
  \<open>floor_log2 n a\<close> is the exponent of \<open>a\<close>, found in at most \<open>n\<close> halvings or
  doublings; the exponent of a subnormal number is held at -1022, and the spacing of the
  values around \<open>a\<close> is \<open>2\<close> to the exponent minus 52.
\<close>

definition round_half_even :: "real \<Rightarrow> int" where
  "round_half_even y =
     (let r = \<lfloor>y\<rfloor>; d = y - of_int r
      in if d < 1 / 2 then r else if 1 / 2 < d then r + 1 else if even r then r else r + 1)"

fun floor_log2 :: "nat \<Rightarrow> real \<Rightarrow> int" where
  "floor_log2 0 a = 0"
| "floor_log2 (Suc n) a =
     (if 2 \<le> a then floor_log2 n (a / 2) + 1
      else if a < 1 then floor_log2 n (a * 2) - 1
      else 0)"

definition b64 :: "real \<Rightarrow> real" where
  "b64 x =
     (if x = 0 then 0
      else
        (let a = \<bar>x\<bar>;
             e = max (floor_log2 1100 a) (- 1022);
             q = 2 powi (e - 52)
         in sgn x * (of_int (round_half_even (a / q)) * q)))"

text \<open>Subtraction, multiplication, division and \<open>Math.round\<close> on JavaScript numbers.\<close>

definition js_minus :: "real \<Rightarrow> real \<Rightarrow> real" where
  "js_minus a b = b64 (a - b)"

definition js_times :: "real \<Rightarrow> real \<Rightarrow> real" where
  "js_times a b = b64 (a * b)"

definition js_div :: "real \<Rightarrow> real \<Rightarrow> jsnum" where
  "js_div a b =
     (if b = 0 then (if a = 0 then NaN else if 0 < a then PosInf else NegInf)
      else Fin (b64 (a / b)))"

fun js_mul :: "jsnum \<Rightarrow> real \<Rightarrow> jsnum" where
  "js_mul (Fin a) b = Fin (js_times a b)"
| "js_mul PosInf b = (if b = 0 then NaN else if 0 < b then PosInf else NegInf)"
| "js_mul NegInf b = (if b = 0 then NaN else if 0 < b then NegInf else PosInf)"
| "js_mul NaN b = NaN"

text \<open>
  \<open>Math.round\<close> is the integer nearest to its argument, the greater one on a tie: the
  floor of \<open>x + 1/2\<close> taken exactly, which is \<open>round\<close>.
\<close>

fun js_round :: "jsnum \<Rightarrow> jsnum" where
  "js_round (Fin a) = Fin (of_int (round a))"
| "js_round v = v"

text \<open>An image element with its bounding rectangle, and a mouse event on it.\<close>

record dom_rect =
  rect_left :: real
  rect_top :: real
  rect_width :: real
  rect_height :: real

record img_element =
  naturalWidth :: real
  naturalHeight :: real
  img_width :: real
  img_height :: real
  boundingClientRect :: dom_rect

record mouse_event =
  clientX :: real
  clientY :: real
  currentTarget :: img_element

definition handleImageClick :: "mouse_event \<Rightarrow> app_state \<Rightarrow> app_state" where
  "handleImageClick e s =
     (if activeTab s \<noteq> Retouch \<or> isLoading s then s
      else
        (let imgElement = currentTarget e;
             rect = boundingClientRect imgElement;
             x = js_round (js_mul (js_div (js_minus (clientX e) (rect_left rect)) (rect_width rect))
                                  (naturalWidth imgElement));
             y = js_round (js_mul (js_div (js_minus (clientY e) (rect_top rect)) (rect_height rect))
                                  (naturalHeight imgElement));
             displayX = js_minus (clientX e) (rect_left rect);
             displayY = js_minus (clientY e) (rect_top rect)
         in s\<lparr>editHotspot := Some \<lparr>px = x, py = y\<rparr>,
               displayHotspot := Some \<lparr>px = Fin displayX, py = Fin displayY\<rparr>\<rparr>))"


section \<open>Cropping\<close>

text \<open>
  The canvas that \<open>handleApplyCrop\<close> builds: its width and height, the transform, and
  the arguments of \<open>drawImage\<close>. The width and the height of a canvas are attributes
  of type \<open>unsigned long\<close>: a number assigned to one is cut to its integer part and
  taken modulo \<open>2^32\<close>, and a result above \<open>2^31 - 1\<close> gives the default instead.
\<close>

definition to_unsigned_long :: "real \<Rightarrow> nat" where
  "to_unsigned_long x = nat ((if 0 \<le> x then \<lfloor>x\<rfloor> else \<lceil>x\<rceil>) mod 4294967296)"

definition reflect_unsigned_long :: "nat \<Rightarrow> real \<Rightarrow> nat" where
  "reflect_unsigned_long dflt x =
     (let n = to_unsigned_long x in if n \<le> 2147483647 then n else dflt)"

record draw_call =
  draw_sx :: jsnum
  draw_sy :: jsnum
  draw_sw :: jsnum
  draw_sh :: jsnum
  draw_dx :: real
  draw_dy :: real
  draw_dw :: real
  draw_dh :: real

record canvas =
  canvas_width :: nat
  canvas_height :: nat
  canvas_transform :: "real list"
  imageSmoothingHigh :: bool
  drawn :: "draw_call option"

text \<open>A new canvas element is 300 by 150 with the identity transform.\<close>

definition new_canvas :: canvas where
  "new_canvas =
     \<lparr>canvas_width = 300, canvas_height = 150, canvas_transform = [1, 0, 0, 1, 0, 0],
      imageSmoothingHigh = False, drawn = None\<rparr>"

text \<open>\<open>window.devicePixelRatio || 1\<close>\<close>

definition pixelRatio :: "real \<Rightarrow> real" where
  "pixelRatio devicePixelRatio = (if devicePixelRatio = 0 then 1 else devicePixelRatio)"

text \<open>The statements of \<open>handleApplyCrop\<close> on the canvas, in their order.\<close>

definition crop_canvas :: "crop_rect \<Rightarrow> img_element \<Rightarrow> real \<Rightarrow> canvas" where
  "crop_canvas completed img devicePixelRatio =
     (let scaleX = js_div (naturalWidth img) (img_width img);
          scaleY = js_div (naturalHeight img) (img_height img);
          c1 = new_canvas\<lparr>canvas_width := reflect_unsigned_long 300 (crop_width completed)\<rparr>;
          c2 = c1\<lparr>canvas_height := reflect_unsigned_long 150 (crop_height completed)\<rparr>;
          r = pixelRatio devicePixelRatio;
          c3 = c2\<lparr>canvas_width := reflect_unsigned_long 300 (js_times (crop_width completed) r)\<rparr>;
          c4 = c3\<lparr>canvas_height := reflect_unsigned_long 150 (js_times (crop_height completed) r)\<rparr>;
          c5 = c4\<lparr>canvas_transform := [r, 0, 0, r, 0, 0]\<rparr>;
          c6 = c5\<lparr>imageSmoothingHigh := True\<rparr>
      in c6\<lparr>drawn := Some
              \<lparr>draw_sx = js_mul scaleX (crop_x completed),
               draw_sy = js_mul scaleY (crop_y completed),
               draw_sw = js_mul scaleX (crop_width completed),
               draw_sh = js_mul scaleY (crop_height completed),
               draw_dx = 0, draw_dy = 0,
               draw_dw = crop_width completed, draw_dh = crop_height completed\<rparr>\<rparr>)"

text \<open>
  \<open>handleApplyCrop\<close>. \<open>toDataURL\<close> is the host's encoder of the canvas, \<open>has_ctx\<close>
  tells whether \<open>getContext('2d')\<close> returned a context, \<open>imgRef\<close> is
  \<open>imgRef.current\<close>. The handler has no \<open>try\<close>: an error of \<open>dataURLtoFile\<close>
  leaves it as \<open>Inl\<close>, before any setter has run.
\<close>

definition handleApplyCrop ::
  "(canvas \<Rightarrow> string) \<Rightarrow> (string \<Rightarrow> thrown + string) \<Rightarrow> nat \<Rightarrow> real \<Rightarrow> bool \<Rightarrow>
   img_element option \<Rightarrow> app_state \<Rightarrow> thrown + app_state" where
  "handleApplyCrop toDataURL atob now devicePixelRatio has_ctx imgRef s =
     (case completedCrop s of
        None \<Rightarrow> Inr (s\<lparr>error := Some NoCropSelected\<rparr>)
      | Some completed \<Rightarrow>
          (case imgRef of
             None \<Rightarrow> Inr (s\<lparr>error := Some NoCropSelected\<rparr>)
           | Some img \<Rightarrow>
               if \<not> has_ctx then Inr (s\<lparr>error := Some CropContextFailed\<rparr>)
               else
                 (let croppedImageUrl = toDataURL (crop_canvas completed img devicePixelRatio)
                  in case dataURLtoFile atob croppedImageUrl (''rognee-'' @ decimal now @ ''.png'') of
                       Inl err \<Rightarrow> Inl err
                     | Inr newImageFile \<Rightarrow> Inr (addImageToHistory s newImageFile s))))"

text \<open>
  \<open>imgRef.current\<close> after a render: the page has an image element carrying the ref
  only when there is a current image and the side-by-side view is off; otherwise the ref
  is \<open>null\<close>.
\<close>

definition imgRef_current :: "img_element \<Rightarrow> app_state \<Rightarrow> img_element option" where
  "imgRef_current img s = (if currentImage s = None \<or> isSideBySide s then None else Some img)"

section \<open>Events of the page\<close>

text \<open>
  The remaining controls of \<open>App\<close>, each with the condition under which it is rendered
  and enabled: the start screen (shown when there is no current image), the prompt
  field, the image, the undo, redo, reset and new-image buttons, the side-by-side and
  compare buttons, and the crop selection.
\<close>

definition startScreen_select :: "js_file list \<Rightarrow> app_state \<Rightarrow> app_state" where
  "startScreen_select files s =
     (if currentImage s \<noteq> None then s
      else (case files of [] \<Rightarrow> s | f # _ \<Rightarrow> handleImageUpload f s))"

definition promptField_change :: "string \<Rightarrow> app_state \<Rightarrow> app_state" where
  "promptField_change v s =
     (if currentImage s = None \<or> activeTab s \<noteq> Retouch \<or> isLoading s then s else s\<lparr>prompt := v\<rparr>)"

definition image_click :: "mouse_event \<Rightarrow> app_state \<Rightarrow> app_state" where
  "image_click e s =
     (if currentImage s = None \<or> isSideBySide s \<or> activeTab s = Crop then s
      else handleImageClick e s)"

definition undoButton_click :: "app_state \<Rightarrow> app_state" where
  "undoButton_click s =
     (if currentImage s = None \<or> \<not> canUndo s \<or> isLoading s then s else handleUndo s)"

definition redoButton_click :: "app_state \<Rightarrow> app_state" where
  "redoButton_click s =
     (if currentImage s = None \<or> \<not> canRedo s \<or> isLoading s then s else handleRedo s)"

definition resetButton_click :: "bool \<Rightarrow> app_state \<Rightarrow> app_state" where
  "resetButton_click confirmed s =
     (if currentImage s = None \<or> isLoading s \<or> length (history s) < 2 then s
      else handleReset confirmed s)"

definition newImageButton_click :: "bool \<Rightarrow> app_state \<Rightarrow> app_state" where
  "newImageButton_click confirmed s =
     (if currentImage s = None \<or> isLoading s then s else handleNewImage confirmed s)"

definition sideBySideButton_click :: "app_state \<Rightarrow> app_state" where
  "sideBySideButton_click s =
     (if currentImage s = None \<or> isLoading s \<or> length (history s) < 2
         \<or> activeTab s = Retouch \<or> activeTab s = Crop
      then s
      else s\<lparr>isSideBySide := \<not> isSideBySide s\<rparr>)"

definition compareButton_press :: "app_state \<Rightarrow> app_state" where
  "compareButton_press s =
     (if currentImage s = None \<or> isLoading s \<or> length (history s) < 2 \<or> isSideBySide s then s
      else s\<lparr>isComparing := True\<rparr>)"

definition compareButton_release :: "app_state \<Rightarrow> app_state" where
  "compareButton_release s = (if currentImage s = None then s else s\<lparr>isComparing := False\<rparr>)"

definition cropSelection_change :: "crop_rect \<Rightarrow> app_state \<Rightarrow> app_state" where
  "cropSelection_change c s =
     (if currentImage s = None \<or> isSideBySide s \<or> activeTab s \<noteq> Crop then s
      else s\<lparr>crop := Some c\<rparr>)"

definition cropSelection_complete :: "crop_rect \<Rightarrow> app_state \<Rightarrow> app_state" where
  "cropSelection_complete c s =
     (if currentImage s = None \<or> isSideBySide s \<or> activeTab s \<noteq> Crop then s
      else s\<lparr>completedCrop := Some c\<rparr>)"

text \<open>
  \<open>FilterPanel\<close> and \<open>CropPanel\<close> are rendered on their tabs and receive
  \<open>handleApplyFilter\<close>, and \<open>handleApplyCrop\<close> with \<open>setAspect\<close>, as callbacks.
  Their own code is not among the sources, so a call of a callback is taken whenever the
  panel is rendered.
\<close>

definition cropPanel_setAspect :: "real option \<Rightarrow> app_state \<Rightarrow> app_state" where
  "cropPanel_setAspect a s =
     (if currentImage s = None \<or> activeTab s \<noteq> Crop then s else s\<lparr>aspect := a\<rparr>)"

definition filterPanel_apply :: "string \<Rightarrow> app_state \<Rightarrow> app_state \<times> request option" where
  "filterPanel_apply filterPrompt s =
     (if currentImage s = None \<or> activeTab s \<noteq> Filters then (s, None)
      else handleApplyFilter_begin filterPrompt s)"

definition cropPanel_apply ::
  "(canvas \<Rightarrow> string) \<Rightarrow> (string \<Rightarrow> thrown + string) \<Rightarrow> nat \<Rightarrow> real \<Rightarrow> bool \<Rightarrow>
   img_element \<Rightarrow> app_state \<Rightarrow> app_state" where
  "cropPanel_apply toDataURL atob now devicePixelRatio has_ctx img s =
     (if currentImage s = None \<or> activeTab s \<noteq> Crop then s
      else (case handleApplyCrop toDataURL atob now devicePixelRatio has_ctx (imgRef_current img s) s of
              Inl err \<Rightarrow> s
            | Inr s' \<Rightarrow> s'))"

text \<open>
  What can happen to the page: an event of a control, or the settling of a request in
  flight, with the value of \<open>Date.now()\<close> and the outcome of the promise.
\<close>

datatype event =
    FileSelect "js_file list"
  | PromptChange string
  | ImageClick mouse_event
  | GenerateClick
  | AdjustmentApplyClick adjustment_panel
  | FilterApplyCall string
  | CropApplyCall nat real bool img_element
  | AspectCall "real option"
  | CropChange crop_rect
  | CropComplete crop_rect
  | TabClick tab
  | UndoClick
  | RedoClick
  | ResetClick bool
  | NewImageClick bool
  | SideBySideClick
  | ComparePress
  | CompareRelease
  | Settled nat nat "thrown + string"

text \<open>
  The page is the state of \<open>App\<close> with the requests in flight, each with the state of
  the render whose handler started it. A handler that starts a request adds it; a settled
  request runs the rest of its handler and leaves.
\<close>

type_synonym page = "app_state \<times> (request \<times> app_state) list"

definition started :: "app_state \<Rightarrow> (request \<times> app_state) list \<Rightarrow> app_state \<times> request option \<Rightarrow> page" where
  "started s q r = (fst r, (case snd r of None \<Rightarrow> q | Some req \<Rightarrow> q @ [(req, s)]))"

definition settle ::
  "(string \<Rightarrow> thrown + string) \<Rightarrow> nat \<Rightarrow> request \<Rightarrow> app_state \<Rightarrow> thrown + string \<Rightarrow>
   app_state \<Rightarrow> app_state" where
  "settle atob now req rendered outcome s =
     (case req of
        EditRequest _ _ _ \<Rightarrow> handleGenerate_resume atob now rendered outcome s
      | FilterRequest _ _ \<Rightarrow> handleApplyFilter_resume atob now rendered outcome s
      | AdjustRequest _ _ \<Rightarrow> handleApplyAdjustment_resume atob now rendered outcome s)"

fun page_event ::
  "(canvas \<Rightarrow> string) \<Rightarrow> (string \<Rightarrow> thrown + string) \<Rightarrow> event \<Rightarrow> page \<Rightarrow> page" where
  "page_event toDataURL atob (FileSelect files) (s, q) = (startScreen_select files s, q)"
| "page_event toDataURL atob (PromptChange v) (s, q) = (promptField_change v s, q)"
| "page_event toDataURL atob (ImageClick e) (s, q) = (image_click e s, q)"
| "page_event toDataURL atob GenerateClick (s, q) = started s q (generateButton_click s)"
| "page_event toDataURL atob (AdjustmentApplyClick p) (s, q) =
     started s q (applyAdjustmentButton_click p s)"
| "page_event toDataURL atob (FilterApplyCall filterPrompt) (s, q) =
     started s q (filterPanel_apply filterPrompt s)"
| "page_event toDataURL atob (CropApplyCall now devicePixelRatio has_ctx img) (s, q) =
     (cropPanel_apply toDataURL atob now devicePixelRatio has_ctx img s, q)"
| "page_event toDataURL atob (AspectCall a) (s, q) = (cropPanel_setAspect a s, q)"
| "page_event toDataURL atob (CropChange c) (s, q) = (cropSelection_change c s, q)"
| "page_event toDataURL atob (CropComplete c) (s, q) = (cropSelection_complete c s, q)"
| "page_event toDataURL atob (TabClick t) (s, q) = (tabButton_click t s, q)"
| "page_event toDataURL atob UndoClick (s, q) = (undoButton_click s, q)"
| "page_event toDataURL atob RedoClick (s, q) = (redoButton_click s, q)"
| "page_event toDataURL atob (ResetClick confirmed) (s, q) = (resetButton_click confirmed s, q)"
| "page_event toDataURL atob (NewImageClick confirmed) (s, q) = (newImageButton_click confirmed s, q)"
| "page_event toDataURL atob SideBySideClick (s, q) = (sideBySideButton_click s, q)"
| "page_event toDataURL atob ComparePress (s, q) = (compareButton_press s, q)"
| "page_event toDataURL atob CompareRelease (s, q) = (compareButton_release s, q)"
| "page_event toDataURL atob (Settled i now outcome) (s, q) =
     (if i < length q
      then (settle atob now (fst (q ! i)) (snd (q ! i)) outcome s, take i q @ drop (Suc i) q)
      else (s, q))"

text \<open>The page after a sequence of events, from the initial state with nothing in flight.\<close>

definition run_events ::
  "(canvas \<Rightarrow> string) \<Rightarrow> (string \<Rightarrow> thrown + string) \<Rightarrow> event list \<Rightarrow> page" where
  "run_events toDataURL atob evs = foldl (\<lambda>p ev. page_event toDataURL atob ev p) (initial_state, []) evs"

text \<open>The events of the controls whose code is among the sources: all but the filter panel's.\<close>

fun own_control :: "event \<Rightarrow> bool" where
  "own_control (FilterApplyCall filterPrompt) = False"
| "own_control ev = True"

section \<open>Decoding the service's response (src/services/geminiService.ts)\<close>

text \<open>The fields of \<open>GenerateContentResponse\<close> that \<open>handleApiResponse\<close> reads.\<close>

record inline_data =
  mimeType :: "string option"
  data :: "string option"












section \<open>Example inputs\<close>

definition fileA :: js_file where
  "fileA = \<lparr>file_bits = [1], file_name = ''a.png'', file_type = ''image/png''\<rparr>"

definition fileB :: js_file where
  "fileB = \<lparr>file_bits = [2], file_name = ''b.png'', file_type = ''image/png''\<rparr>"

definition fileC :: js_file where
  "fileC = \<lparr>file_bits = [3], file_name = ''c.png'', file_type = ''image/png''\<rparr>"

definition fileD :: js_file where
  "fileD = \<lparr>file_bits = [4], file_name = ''d.png'', file_type = ''image/png''\<rparr>"

text \<open>Three snapshots with the cursor on the last one.\<close>

definition state_ABC :: app_state where
  "state_ABC = initial_state\<lparr>history := [fileA, fileB, fileC], historyIndex := 2\<rparr>"

text \<open>The same with a hotspot and a crop region selected.\<close>

definition hotspot_1 :: point where
  "hotspot_1 = \<lparr>px = Fin 10, py = Fin 20\<rparr>"

definition crop_50 :: crop_rect where
  "crop_50 = \<lparr>crop_x = 0, crop_y = 0, crop_width = 50, crop_height = 50, crop_unit = Px\<rparr>"

definition state_marked :: app_state where
  "state_marked =
     state_ABC\<lparr>editHotspot := Some hotspot_1, displayHotspot := Some hotspot_1,
               crop := Some crop_50, completedCrop := Some crop_50\<rparr>"

text \<open>The same while a request is in flight.\<close>

definition state_loading :: app_state where
  "state_loading = state_ABC\<lparr>isLoading := True\<rparr>"

text \<open>One entry of the host's base64 table: \<open>atob('AQ==')\<close> is the byte 1.\<close>

definition atob_AQ :: "string \<Rightarrow> thrown + string" where
  "atob_AQ s = (if s = ''AQ=='' then Inr [CHR 0x01] else Inl (Error (HostError ''InvalidCharacterError'')))"

text \<open>A canvas encoder that answers as the host does for an empty canvas.\<close>

definition toDataURL_AQ :: "canvas \<Rightarrow> string" where
  "toDataURL_AQ c =
     (if canvas_width c = 0 \<or> canvas_height c = 0 then ''data:,'' else ''data:image/png;base64,AQ=='')"

text \<open>An image of 2000 by 1000 pixels rendered at 1000 by 500, and a click on it.\<close>

definition img_half :: img_element where
  "img_half =
     \<lparr>naturalWidth = 2000, naturalHeight = 1000, img_width = 1000, img_height = 500,
      boundingClientRect = \<lparr>rect_left = 40, rect_top = 10, rect_width = 1000, rect_height = 500\<rparr>\<rparr>"

definition click_half :: mouse_event where
  "click_half = \<lparr>clientX = 540, clientY = 260, currentTarget = img_half\<rparr>"

text \<open>The same image collapsed to a rendered size of zero, and a click event on it.\<close>

definition img_collapsed :: img_element where
  "img_collapsed =
     \<lparr>naturalWidth = 2000, naturalHeight = 1000, img_width = 0, img_height = 0,
      boundingClientRect = \<lparr>rect_left = 40, rect_top = 10, rect_width = 0, rect_height = 0\<rparr>\<rparr>"

definition click_collapsed :: mouse_event where
  "click_collapsed = \<lparr>clientX = 45, clientY = 10, currentTarget = img_collapsed\<rparr>"

text \<open>An image rendered at its natural size, and a crop region of 100 by 100.\<close>

definition img_full :: img_element where
  "img_full =
     \<lparr>naturalWidth = 2000, naturalHeight = 1000, img_width = 2000, img_height = 1000,
      boundingClientRect = \<lparr>rect_left = 0, rect_top = 0, rect_width = 2000, rect_height = 1000\<rparr>\<rparr>"

definition crop_100 :: crop_rect where
  "crop_100 = \<lparr>crop_x = 10, crop_y = 20, crop_width = 100, crop_height = 100, crop_unit = Px\<rparr>"



text \<open>A crop region of 33.5 by 100 pixels on the page.\<close>

definition crop_fraction :: crop_rect where
  "crop_fraction =
     \<lparr>crop_x = 0, crop_y = 0, crop_width = 67 / 2, crop_height = 100, crop_unit = Px\<rparr>"

text \<open>
  A retouch ready to be sent: an image loaded, a hotspot clicked, an instruction typed.
  And the same on the adjustment tab.
\<close>

definition ready_events :: "event list" where
  "ready_events = [FileSelect [fileA], ImageClick click_half, PromptChange ''add hat'']"

definition state_ready :: app_state where
  "state_ready =
     initial_state\<lparr>history := [fileA], historyIndex := 0, prompt := ''add hat'',
       editHotspot := Some \<lparr>px = Fin 1000, py = Fin 500\<rparr>,
       displayHotspot := Some \<lparr>px = Fin 500, py = Fin 250\<rparr>\<rparr>"

text \<open>A crop region of no extent, as a click without a drag leaves it.\<close>

definition crop_empty :: crop_rect where
  "crop_empty = \<lparr>crop_x = 5, crop_y = 5, crop_width = 0, crop_height = 0, crop_unit = Px\<rparr>"

text \<open>An adjustment panel with a preset selected.\<close>

definition panel_preset :: adjustment_panel where
  "panel_preset = \<lparr>selectedPresetPrompt = Some ''warmer'', customPrompt = []\<rparr>"






section \<open>Properties of the arithmetic\<close>

text \<open>
  \<open>floor_log2\<close> finds the exponent of every number between \<open>2^-n\<close> and
  \<open>2^(n+1)\<close>, and \<open>b64\<close> moves a number by at most half the spacing of the values
  around it.
\<close>

lemma floor_log2_bounds:
  "2 powi (- int n) \<le> a \<Longrightarrow> a < 2 powi (int n + 1) \<Longrightarrow>
   2 powi (floor_log2 n a) \<le> a \<and> a < 2 powi (floor_log2 n a + 1)"
proof (induction n arbitrary: a)
  case 0
  then show ?case by simp
next
  case (Suc n)
  have up: "(2::real) powi (k + 1) = 2 * 2 powi k" for k :: int
    by (simp add: power_int_add)
  have down: "(2::real) powi (k - 1) = 2 powi k / 2" for k :: int
    by (simp add: power_int_diff)
  have small: "(2::real) powi (- int n) \<le> 1"
    by (simp add: power_int_minus inverse_le_1_iff)
  have big: "(2::real) \<le> 2 powi (int n + 1)"
    by (simp add: up)
  show ?case
  proof (cases "2 \<le> a")
    case True
    from Suc.prems(2) have "a < 2 * 2 powi (int n + 1)"
      using up [of "int n + 1"] by (simp add: add.commute)
    then have "a / 2 < 2 powi (int n + 1)"
      by simp
    moreover from True small have "2 powi (- int n) \<le> a / 2"
      by simp
    ultimately have ih: "2 powi (floor_log2 n (a / 2)) \<le> a / 2"
      "a / 2 < 2 powi (floor_log2 n (a / 2) + 1)"
      using Suc.IH [of "a / 2"] by simp_all
    from ih(1) have "2 powi (floor_log2 n (a / 2) + 1) \<le> a"
      by (simp add: up)
    moreover from ih(2) have "a < 2 powi (floor_log2 n (a / 2) + 1 + 1)"
      using up [of "floor_log2 n (a / 2) + 1"] by simp
    ultimately show ?thesis
      using True by simp
  next
    case False
    show ?thesis
    proof (cases "a < 1")
      case True
      have "- int (Suc n) = - int n - 1"
        by simp
      with Suc.prems(1) have "2 powi (- int n - 1) \<le> a"
        by (simp only:)
      then have "2 powi (- int n) / 2 \<le> a"
        by (simp add: down)
      then have "2 powi (- int n) \<le> a * 2"
        by simp
      moreover from True big have "a * 2 < 2 powi (int n + 1)"
        by simp
      ultimately have ih: "2 powi (floor_log2 n (a * 2)) \<le> a * 2"
        "a * 2 < 2 powi (floor_log2 n (a * 2) + 1)"
        using Suc.IH [of "a * 2"] by simp_all
      from ih(1) have "2 powi (floor_log2 n (a * 2) - 1) \<le> a"
        by (simp add: down)
      moreover from ih(2) have "a < 2 powi (floor_log2 n (a * 2) - 1 + 1)"
        by (simp add: up)
      ultimately show ?thesis
        using True False by simp
    next
      case f: False
      with False show ?thesis by simp
    qed
  qed
qed


lemma round_half_even_close: "\<bar>of_int (round_half_even y) - y\<bar> \<le> 1 / 2"
proof -
  have "of_int \<lfloor>y\<rfloor> \<le> y" "y < of_int \<lfloor>y\<rfloor> + 1"
    by linarith+
  then show ?thesis
    by (auto simp: round_half_even_def Let_def)
qed

lemma scaled_distance:
  fixes m a q :: real
  assumes "0 < q"
  shows "\<bar>m * q - a\<bar> = \<bar>m - a / q\<bar> * q"
proof -
  from assms have "m * q - a = (m - a / q) * q"
    by (simp add: field_simps)
  then have "\<bar>m * q - a\<bar> = \<bar>m - a / q\<bar> * \<bar>q\<bar>"
    by (simp only: abs_mult)
  with assms show ?thesis
    by simp
qed

lemma b64_close:
  assumes "x \<noteq> 0"
  shows "\<bar>b64 x - x\<bar> \<le> 2 powi (max (floor_log2 1100 \<bar>x\<bar>) (- 1022) - 52) / 2"
proof -
  let ?q = "(2::real) powi (max (floor_log2 1100 \<bar>x\<bar>) (- 1022) - 52)"
  let ?m = "round_half_even (\<bar>x\<bar> / ?q)"
  have q: "0 < ?q"
    by simp
  have b: "b64 x = sgn x * (of_int ?m * ?q)"
    using assms by (simp add: b64_def Let_def)
  have "\<bar>b64 x - x\<bar> = \<bar>of_int ?m * ?q - \<bar>x\<bar>\<bar>"
  proof (cases "0 < x")
    case True
    then show ?thesis
      by (simp add: b)
  next
    case False
    with assms have n: "x < 0"
      by simp
    then have "b64 x = - (of_int ?m * ?q)" "\<bar>x\<bar> = - x"
      by (simp_all add: b)
    then show ?thesis
      by linarith
  qed
  also have "\<dots> = \<bar>of_int ?m - \<bar>x\<bar> / ?q\<bar> * ?q"
    using q by (rule scaled_distance)
  also have "\<dots> \<le> 1 / 2 * ?q"
    using round_half_even_close [of "\<bar>x\<bar> / ?q"] q by (intro mult_right_mono) simp_all
  finally show ?thesis
    by simp
qed

section \<open>Properties of the history\<close>

lemma js_slice0_nonneg: "0 \<le> e \<Longrightarrow> js_slice0 xs e = take (nat e) xs"
  by (simp add: js_slice0_def Let_def min_def)

text \<open>
  C1. With an image loaded in the render that created the callback (cursor at least 0), a
  commit replaces the sequence by that render's prefix up to the cursor followed by the
  new snapshot, whatever the other cells hold by then, and the cursor is the new last
  index. From \<open>[A, B, C]\<close> at cursor 2, undo gives cursor 1 and a commit of \<open>D\<close> gives
  \<open>[A, B, D]\<close> at cursor 2; redo then does nothing, and \<open>C\<close> is no longer in the
  sequence.
\<close>

theorem commit_truncates_and_appends:
  "(0 \<le> historyIndex r \<longrightarrow>
      history (addImageToHistory r f s) = take (nat (historyIndex r) + 1) (history r) @ [f])
   \<and> historyIndex (addImageToHistory r f s) = int (length (history (addImageToHistory r f s))) - 1
   \<and> (history r = [A, B, C] \<and> historyIndex r = 2 \<longrightarrow>
        historyIndex (handleUndo r) = 1
      \<and> history (addImageToHistory (handleUndo r) D s) = [A, B, D]
      \<and> historyIndex (addImageToHistory (handleUndo r) D s) = 2
      \<and> \<not> canRedo (addImageToHistory (handleUndo r) D s)
      \<and> handleRedo (addImageToHistory (handleUndo r) D s) = addImageToHistory (handleUndo r) D s
      \<and> (C \<notin> {A, B, D} \<longrightarrow> C \<notin> set (history (addImageToHistory (handleUndo r) D s))))"
proof (intro conjI impI)
  assume "0 \<le> historyIndex r"
  then show "history (addImageToHistory r f s) = take (nat (historyIndex r) + 1) (history r) @ [f]"
    by (simp add: addImageToHistory_def Let_def js_slice0_nonneg nat_add_distrib)
next
  show "historyIndex (addImageToHistory r f s) = int (length (history (addImageToHistory r f s))) - 1"
    by (simp add: addImageToHistory_def Let_def)
next
  assume h: "history r = [A, B, C] \<and> historyIndex r = 2"
  let ?u = "handleUndo r"
  let ?c = "addImageToHistory ?u D s"
  from h have u: "historyIndex ?u = 1" "history ?u = [A, B, C]"
    by (simp_all add: handleUndo_def canUndo_def)
  show "historyIndex ?u = 1" by (rule u)
  from u show c: "history ?c = [A, B, D]"
    by (simp add: addImageToHistory_def Let_def js_slice0_nonneg)
  from u show i: "historyIndex ?c = 2"
    by (simp add: addImageToHistory_def Let_def js_slice0_nonneg)
  from c i show n: "\<not> canRedo ?c"
    by (simp add: canRedo_def)
  from n show "handleRedo ?c = ?c"
    by (simp add: handleRedo_def)
  assume "C \<notin> {A, B, D}"
  with c show "C \<notin> set (history ?c)"
    by auto
qed

theorem commit_truncates_and_appends_witness:
  "0 \<le> historyIndex state_ABC
   \<and> history state_ABC = [fileA, fileB, fileC] \<and> historyIndex state_ABC = 2
   \<and> fileC \<notin> {fileA, fileB, fileD}
   \<and> state_ABC \<noteq> state_loading \<and> handleUndo state_ABC \<noteq> state_marked
   \<and> history (addImageToHistory state_ABC fileD state_loading) = [fileA, fileB, fileC, fileD]
   \<and> historyIndex (addImageToHistory state_ABC fileD state_loading) = 3
   \<and> isLoading (addImageToHistory state_ABC fileD state_loading)
   \<and> historyIndex (handleUndo state_ABC) = 1
   \<and> history (addImageToHistory (handleUndo state_ABC) fileD state_marked) = [fileA, fileB, fileD]
   \<and> historyIndex (addImageToHistory (handleUndo state_ABC) fileD state_marked) = 2
   \<and> fileC \<notin> set (history (addImageToHistory (handleUndo state_ABC) fileD state_marked))"
proof -
  have d: "state_ABC \<noteq> state_loading" "handleUndo state_ABC \<noteq> state_marked"
    "isLoading (addImageToHistory state_ABC fileD state_loading)"
    by (auto simp: state_loading_def state_marked_def state_ABC_def initial_state_def
        handleUndo_def canUndo_def addImageToHistory_def Let_def
        dest: arg_cong [where f = isLoading] arg_cong [where f = historyIndex])
  show ?thesis
    using commit_truncates_and_appends
        [where r = state_ABC and s = state_loading and f = fileD and A = fileA and B = fileB
          and C = fileC and D = fileD]
      commit_truncates_and_appends
        [where r = state_ABC and s = state_marked and f = fileD and A = fileA and B = fileB
          and C = fileC and D = fileD] d
    by (simp add: state_ABC_def initial_state_def fileA_def fileB_def fileC_def fileD_def)
qed


lemma run_events_snoc:
  "run_events toDataURL atob (evs @ [ev]) = page_event toDataURL atob ev (run_events toDataURL atob evs)"
  by (simp add: run_events_def)



lemma ready_run:
  "run_events toDataURL_AQ atob_AQ ready_events = (state_ready, [])"
  by code_simp




lemma redo_iter:
  "int k \<le> int (length (history s)) - 1 - historyIndex s \<Longrightarrow>
   historyIndex ((handleRedo ^^ k) s) = historyIndex s + int k
   \<and> history ((handleRedo ^^ k) s) = history s"
proof (induction k)
  case 0
  show ?case by simp
next
  case (Suc k)
  then have ih: "historyIndex ((handleRedo ^^ k) s) = historyIndex s + int k"
    "history ((handleRedo ^^ k) s) = history s"
    by simp_all
  from Suc.prems ih have "canRedo ((handleRedo ^^ k) s)"
    by (simp add: canRedo_def)
  then have "handleRedo ((handleRedo ^^ k) s) =
      ((handleRedo ^^ k) s)\<lparr>historyIndex := historyIndex ((handleRedo ^^ k) s) + 1,
         editHotspot := None, displayHotspot := None\<rparr>"
    by (simp only: handleRedo_def if_True)
  moreover have "(handleRedo ^^ Suc k) s = handleRedo ((handleRedo ^^ k) s)"
    by simp
  ultimately show ?case
    using ih by simp
qed

text \<open>
  C9. On a non-empty history a (confirmed) reset puts the cursor on 0 and keeps the
  sequence, and a second reset changes nothing. From there \<open>k\<close> redos reach cursor \<open>k\<close>
  for every \<open>k\<close> up to the cursor before the reset, where the snapshot shown before
  the reset is current again. A commit made by a handler of the render after the reset
  leaves the original followed by the new snapshot, whatever the other cells hold by then.
\<close>

theorem reset_keeps_sequence:
  assumes "history s \<noteq> []"
  shows "historyIndex (handleReset True s) = 0
    \<and> history (handleReset True s) = history s
    \<and> handleReset True (handleReset True s) = handleReset True s
    \<and> (0 \<le> historyIndex s \<and> historyIndex s < int (length (history s)) \<and> int k \<le> historyIndex s \<longrightarrow>
           historyIndex ((handleRedo ^^ k) (handleReset True s)) = int k
         \<and> history ((handleRedo ^^ k) (handleReset True s)) = history s)
    \<and> (0 \<le> historyIndex s \<and> historyIndex s < int (length (history s)) \<longrightarrow>
           currentImage ((handleRedo ^^ nat (historyIndex s)) (handleReset True s)) = currentImage s)
    \<and> history (addImageToHistory (handleReset True s) f t) = [hd (history s), f]
    \<and> historyIndex (addImageToHistory (handleReset True s) f t) = 1"
proof -
  let ?r = "handleReset True s"
  from assms have r0: "historyIndex ?r = 0" and rh: "history ?r = history s"
    by (simp_all add: handleReset_def)
  from assms have idem: "handleReset True ?r = ?r"
    by (simp add: handleReset_def)
  have it: "int j \<le> int (length (history s)) - 1 \<Longrightarrow>
      historyIndex ((handleRedo ^^ j) ?r) = int j \<and> history ((handleRedo ^^ j) ?r) = history s" for j
    using redo_iter [of j ?r] r0 rh by simp
  have upto: "0 \<le> historyIndex s \<and> historyIndex s < int (length (history s)) \<and> int k \<le> historyIndex s \<longrightarrow>
           historyIndex ((handleRedo ^^ k) ?r) = int k
         \<and> history ((handleRedo ^^ k) ?r) = history s"
    using it [of k] by auto
  have restore: "0 \<le> historyIndex s \<and> historyIndex s < int (length (history s)) \<longrightarrow>
           currentImage ((handleRedo ^^ nat (historyIndex s)) ?r) = currentImage s"
    using it [of "nat (historyIndex s)"] by (auto simp: currentImage_def js_index_def)
  from assms obtain x xs where cons: "history s = x # xs"
    by (cases "history s") auto
  with r0 rh have c1: "history (addImageToHistory ?r f t) = [hd (history s), f]"
    by (simp add: addImageToHistory_def Let_def js_slice0_nonneg)
  from cons r0 rh have c2: "historyIndex (addImageToHistory ?r f t) = 1"
    by (simp add: addImageToHistory_def Let_def js_slice0_nonneg)
  from r0 rh idem upto restore c1 c2 show ?thesis
    by blast
qed

theorem reset_keeps_sequence_witness:
  "history state_ABC \<noteq> []
   \<and> historyIndex state_ABC = 2
   \<and> historyIndex (handleReset True state_ABC) = 0
   \<and> history (handleReset True state_ABC) = [fileA, fileB, fileC]
   \<and> historyIndex ((handleRedo ^^ 2) (handleReset True state_ABC)) = 2
   \<and> currentImage ((handleRedo ^^ 2) (handleReset True state_ABC)) = Some fileC
   \<and> handleReset True state_ABC \<noteq> state_loading
   \<and> history (addImageToHistory (handleReset True state_ABC) fileD state_loading) = [fileA, fileD]
   \<and> historyIndex (addImageToHistory (handleReset True state_ABC) fileD state_loading) = 1
   \<and> isLoading (addImageToHistory (handleReset True state_ABC) fileD state_loading)"
proof -
  have h: "history state_ABC = [fileA, fileB, fileC]" and i: "historyIndex state_ABC = 2"
    by (simp_all add: state_ABC_def)
  have c: "currentImage state_ABC = Some fileC"
    by (simp add: state_ABC_def currentImage_def js_index_def)
  have n: "nat (historyIndex state_ABC) = 2" "int 2 \<le> historyIndex state_ABC"
    using i by simp_all
  from h have ne: "history state_ABC \<noteq> []"
    by simp
  have d: "handleReset True state_ABC \<noteq> state_loading"
    "isLoading (addImageToHistory (handleReset True state_ABC) fileD state_loading)"
    by (auto simp: state_loading_def state_ABC_def initial_state_def handleReset_def
        addImageToHistory_def Let_def dest: arg_cong [where f = isLoading])
  show ?thesis
    using reset_keeps_sequence [OF ne, where k = 2 and f = fileD and t = state_loading] h i c n d
    by simp
qed

text \<open>
  C5 as stated fails. With a hotspot and a crop region selected: a tab switch keeps the
  hotspot, an undo moves the cursor and keeps the crop region, and a commit keeps the
  hotspot.
\<close>

theorem stale_transients_counterexample:
  "editHotspot state_marked = Some hotspot_1
   \<and> completedCrop state_marked = Some crop_50
   \<and> editHotspot (handleTabChange Filters state_marked) = Some hotspot_1
   \<and> displayHotspot (handleTabChange Filters state_marked) = Some hotspot_1
   \<and> historyIndex (handleUndo state_marked) = 1
   \<and> completedCrop (handleUndo state_marked) = Some crop_50
   \<and> historyIndex (addImageToHistory state_marked fileD state_marked) = 3
   \<and> editHotspot (addImageToHistory state_marked fileD state_marked) = Some hotspot_1"
  by (simp add: state_marked_def state_ABC_def initial_state_def handleTabChange_def
      handleUndo_def canUndo_def addImageToHistory_def js_slice0_def Let_def)

text \<open>
  C5, amended. A confirmed reset of a non-empty history clears the hotspot and the crop
  region. Every commit clears the crop region, and the commit of a successful retouch
  clears the hotspot as well. An undo or a redo that moves the cursor clears the hotspot.
  A tab switch sets the active tab and keeps the hotspot.
\<close>

theorem transients_cleared:
  "(history s \<noteq> [] \<longrightarrow>
      editHotspot (handleReset True s) = None \<and> displayHotspot (handleReset True s) = None
    \<and> crop (handleReset True s) = None \<and> completedCrop (handleReset True s) = None)
   \<and> crop (addImageToHistory r f s) = None \<and> completedCrop (addImageToHistory r f s) = None
   \<and> (dataURLtoFile atob url (''modifiee-'' @ decimal now @ ''.png'') = Inr f \<longrightarrow>
        handleGenerate_resume atob now r (Inr url) s
          = (addImageToHistory r f s)\<lparr>editHotspot := None, displayHotspot := None, isLoading := False\<rparr>
      \<and> editHotspot (handleGenerate_resume atob now r (Inr url) s) = None
      \<and> displayHotspot (handleGenerate_resume atob now r (Inr url) s) = None
      \<and> crop (handleGenerate_resume atob now r (Inr url) s) = None
      \<and> completedCrop (handleGenerate_resume atob now r (Inr url) s) = None)
   \<and> (canUndo s \<longrightarrow>
        historyIndex (handleUndo s) = historyIndex s - 1
      \<and> editHotspot (handleUndo s) = None \<and> displayHotspot (handleUndo s) = None)
   \<and> (canRedo s \<longrightarrow>
        historyIndex (handleRedo s) = historyIndex s + 1
      \<and> editHotspot (handleRedo s) = None \<and> displayHotspot (handleRedo s) = None)
   \<and> activeTab (handleTabChange t s) = t
   \<and> editHotspot (handleTabChange t s) = editHotspot s
   \<and> displayHotspot (handleTabChange t s) = displayHotspot s"
proof -
  have reset: "history s \<noteq> [] \<longrightarrow>
      editHotspot (handleReset True s) = None \<and> displayHotspot (handleReset True s) = None
    \<and> crop (handleReset True s) = None \<and> completedCrop (handleReset True s) = None"
    by (simp add: handleReset_def)
  have commit: "crop (addImageToHistory r f s) = None \<and> completedCrop (addImageToHistory r f s) = None"
    by (simp add: addImageToHistory_def Let_def)
  have retouch: "dataURLtoFile atob url (''modifiee-'' @ decimal now @ ''.png'') = Inr f \<longrightarrow>
        handleGenerate_resume atob now r (Inr url) s
          = (addImageToHistory r f s)\<lparr>editHotspot := None, displayHotspot := None, isLoading := False\<rparr>
      \<and> editHotspot (handleGenerate_resume atob now r (Inr url) s) = None
      \<and> displayHotspot (handleGenerate_resume atob now r (Inr url) s) = None
      \<and> crop (handleGenerate_resume atob now r (Inr url) s) = None
      \<and> completedCrop (handleGenerate_resume atob now r (Inr url) s) = None"
    using commit by (simp add: handleGenerate_resume_def)
  have undo: "canUndo s \<longrightarrow>
        historyIndex (handleUndo s) = historyIndex s - 1
      \<and> editHotspot (handleUndo s) = None \<and> displayHotspot (handleUndo s) = None"
    by (simp add: handleUndo_def)
  have redo: "canRedo s \<longrightarrow>
        historyIndex (handleRedo s) = historyIndex s + 1
      \<and> editHotspot (handleRedo s) = None \<and> displayHotspot (handleRedo s) = None"
    by (simp add: handleRedo_def)
  have tabs: "activeTab (handleTabChange t s) = t
      \<and> editHotspot (handleTabChange t s) = editHotspot s
      \<and> displayHotspot (handleTabChange t s) = displayHotspot s"
    by (simp add: handleTabChange_def Let_def)
  from reset commit retouch undo redo tabs show ?thesis
    by blast
qed

theorem transients_cleared_witness:
  "history state_marked \<noteq> [] \<and> canUndo state_marked
   \<and> canRedo (handleUndo state_marked)
   \<and> dataURLtoFile atob_AQ ''data:image/png;base64,AQ=='' (''modifiee-'' @ decimal 1700 @ ''.png'')
       = Inr \<lparr>file_bits = [1], file_name = ''modifiee-1700.png'', file_type = ''image/png''\<rparr>
   \<and> editHotspot (handleReset True state_marked) = None
   \<and> completedCrop (handleReset True state_marked) = None
   \<and> editHotspot (handleGenerate_resume atob_AQ 1700 state_marked
        (Inr ''data:image/png;base64,AQ=='') state_marked) = None
   \<and> completedCrop (handleGenerate_resume atob_AQ 1700 state_marked
        (Inr ''data:image/png;base64,AQ=='') state_marked) = None
   \<and> editHotspot (handleUndo state_marked) = None
   \<and> historyIndex (handleRedo (handleUndo state_marked)) = 2
   \<and> editHotspot (handleTabChange Crop state_marked) = Some hotspot_1"
proof -
  have d: "dataURLtoFile atob_AQ ''data:image/png;base64,AQ=='' (''modifiee-'' @ decimal 1700 @ ''.png'')
       = Inr \<lparr>file_bits = [1], file_name = ''modifiee-1700.png'', file_type = ''image/png''\<rparr>"
    by code_simp
  have ne: "history state_marked \<noteq> []" and u: "canUndo state_marked"
    and e: "editHotspot state_marked = Some hotspot_1"
    by (simp_all add: state_marked_def state_ABC_def canUndo_def)
  have r: "canRedo (handleUndo state_marked)" "historyIndex (handleUndo state_marked) = 1"
    by (simp_all add: state_marked_def state_ABC_def handleUndo_def canUndo_def canRedo_def)
  show ?thesis
    using transients_cleared [where s = state_marked and r = state_marked and t = Crop
        and atob = atob_AQ and url = "''data:image/png;base64,AQ==''" and now = 1700
        and f = "\<lparr>file_bits = [1], file_name = ''modifiee-1700.png'', file_type = ''image/png''\<rparr>"]
      transients_cleared [where s = "handleUndo state_marked" and r = state_marked and t = Crop
        and atob = atob_AQ and url = "''data:image/png;base64,AQ==''" and now = 1700
        and f = "\<lparr>file_bits = [1], file_name = ''modifiee-1700.png'', file_type = ''image/png''\<rparr>"]
      d ne u e r
    by simp
qed

section \<open>Properties of the pointer conversion and of cropping\<close>

lemma b64_values:
  "b64 1 = 1" "b64 5 = 5" "b64 500 = 500" "b64 250 = 250" "b64 41 = 41"
  by code_simp+




text \<open>
  C8 as stated fails: a click on an image whose rendered size is zero is not skipped. The
  hotspot is replaced, and its native coordinates are an infinity and NaN.
\<close>

theorem zero_size_click_counterexample:
  "rect_width (boundingClientRect (currentTarget click_collapsed)) = 0
   \<and> rect_height (boundingClientRect (currentTarget click_collapsed)) = 0
   \<and> editHotspot state_ABC = None
   \<and> editHotspot (handleImageClick click_collapsed state_ABC) = Some \<lparr>px = PosInf, py = NaN\<rparr>"
  by (simp add: click_collapsed_def img_collapsed_def state_ABC_def initial_state_def
      handleImageClick_def Let_def js_div_def js_minus_def b64_values, simp add: b64_def)

text \<open>
  C8, amended. The conversion has no guard for a rendered size of zero. On the retouch
  tab with no request in flight every click sets a hotspot; its native \<open>x\<close> is a finite
  number when the rendered width is not zero, and an infinity or NaN when it is zero (the
  same for \<open>y\<close> and the height). The handler skips the update only on another tab or
  while a request is in flight.
\<close>

theorem zero_size_click_not_guarded:
  "(activeTab s \<noteq> Retouch \<or> isLoading s \<longrightarrow> handleImageClick e s = s)
   \<and> (activeTab s = Retouch \<and> \<not> isLoading s \<longrightarrow>
        (\<exists>p. editHotspot (handleImageClick e s) = Some p
           \<and> ((\<exists>v. px p = Fin v) \<longleftrightarrow> rect_width (boundingClientRect (currentTarget e)) \<noteq> 0)
           \<and> ((\<exists>v. py p = Fin v) \<longleftrightarrow> rect_height (boundingClientRect (currentTarget e)) \<noteq> 0)))"
proof (intro conjI impI)
  assume "activeTab s \<noteq> Retouch \<or> isLoading s"
  then show "handleImageClick e s = s"
    by (auto simp: handleImageClick_def)
next
  assume a: "activeTab s = Retouch \<and> \<not> isLoading s"
  have fin: "(\<exists>v. js_round (js_mul (js_div a b) c) = Fin v) \<longleftrightarrow> b \<noteq> 0" for a b c :: real
    by (simp add: js_div_def)
  from a show "\<exists>p. editHotspot (handleImageClick e s) = Some p
           \<and> ((\<exists>v. px p = Fin v) \<longleftrightarrow> rect_width (boundingClientRect (currentTarget e)) \<noteq> 0)
           \<and> ((\<exists>v. py p = Fin v) \<longleftrightarrow> rect_height (boundingClientRect (currentTarget e)) \<noteq> 0)"
    by (simp add: handleImageClick_def Let_def fin)
qed

theorem zero_size_click_not_guarded_witness:
  "activeTab state_ABC = Retouch \<and> \<not> isLoading state_ABC \<and> isLoading state_loading
   \<and> rect_width (boundingClientRect (currentTarget click_collapsed)) = 0
   \<and> handleImageClick click_collapsed state_loading = state_loading
   \<and> (\<exists>p. editHotspot (handleImageClick click_collapsed state_ABC) = Some p
         \<and> (\<forall>v. px p \<noteq> Fin v) \<and> (\<forall>v. py p \<noteq> Fin v))"
proof -
  have a: "activeTab state_ABC = Retouch" "\<not> isLoading state_ABC" "isLoading state_loading"
    by (simp_all add: state_loading_def state_ABC_def initial_state_def)
  have z: "rect_width (boundingClientRect (currentTarget click_collapsed)) = 0"
    "rect_height (boundingClientRect (currentTarget click_collapsed)) = 0"
    by (simp_all add: click_collapsed_def img_collapsed_def)
  show ?thesis
    using zero_size_click_not_guarded [where s = state_ABC and e = click_collapsed]
      zero_size_click_not_guarded [where s = state_loading and e = click_collapsed] a z
    by simp
qed

lemma b64_products:
  "js_times 50 2 = 100" "js_times 100 2 = 200" "js_times (67 / 2) (3 / 2) = 201 / 4"
  "js_times 100 (3 / 2) = 150" "js_times 100 (b64 (23 / 20)) < 115"
  "114 \<le> js_times 100 (b64 (23 / 20))" "b64 (3 / 2) = 3 / 2"
  unfolding js_times_def by code_simp+

lemma reflect_in_range:
  "0 \<le> x \<Longrightarrow> x < 2147483648 \<Longrightarrow> int (reflect_unsigned_long dflt x) = \<lfloor>x\<rfloor>"
proof -
  assume a: "0 \<le> x" "x < 2147483648"
  then have f: "0 \<le> \<lfloor>x\<rfloor>" "\<lfloor>x\<rfloor> < 2147483648"
    by (simp_all add: floor_less_iff)
  then have "\<lfloor>x\<rfloor> mod 4294967296 = \<lfloor>x\<rfloor>"
    by simp
  with a have u: "to_unsigned_long x = nat \<lfloor>x\<rfloor>"
    by (simp add: to_unsigned_long_def)
  from f have "nat \<lfloor>x\<rfloor> \<le> 2147483647"
    by linarith
  with u f show ?thesis
    by (simp add: reflect_unsigned_long_def Let_def)
qed

lemma reflect_values:
  "reflect_unsigned_long dflt 100 = 100" "reflect_unsigned_long dflt 200 = 200"
  "reflect_unsigned_long dflt 150 = 150" "reflect_unsigned_long dflt (201 / 4) = 50"
  "reflect_unsigned_long dflt 0 = 0"
  using reflect_in_range [of 100 dflt] reflect_in_range [of 200 dflt] reflect_in_range [of 150 dflt]
    reflect_in_range [of "201 / 4" dflt] reflect_in_range [of 0 dflt]
  by (simp_all add: floor_eq_iff)

text \<open>
  C6 as stated fails. An image of 2000 by 1000 pixels is rendered at 1000 by 500, and the
  crop region is 50 by 50 on the page, which is 100 by 100 native pixels (the source
  rectangle of \<open>drawImage\<close>). At device pixel ratio 2 the canvas is 100 by 100, not
  200 by 200.
\<close>

theorem crop_raster_counterexample:
  "drawn (crop_canvas crop_50 img_half 2) =
      Some \<lparr>draw_sx = Fin 0, draw_sy = Fin 0, draw_sw = Fin 100, draw_sh = Fin 100,
            draw_dx = 0, draw_dy = 0, draw_dw = 50, draw_dh = 50\<rparr>
   \<and> canvas_width (crop_canvas crop_50 img_half 2) = 100
   \<and> canvas_height (crop_canvas crop_50 img_half 2) = 100
   \<and> canvas_width (crop_canvas crop_50 img_half 2) \<noteq> 200"
proof -
  have "js_div 2000 1000 = Fin 2" "js_div 1000 500 = Fin 2" "js_times 2 0 = 0" "js_times 2 50 = 100"
    unfolding js_div_def js_times_def by code_simp+
  then show ?thesis
    by (simp add: crop_canvas_def crop_50_def img_half_def new_canvas_def pixelRatio_def
        Let_def b64_products reflect_values)
qed

text \<open>
  C6, amended. The width and the height of the canvas are what the canvas keeps of the
  size of the crop region as measured on the page (in rendered pixels) multiplied by the
  pixel ratio, which is the device pixel ratio, or 1 when that is zero: the integer part
  of the product, for a product from 0 up to \<open>2^31\<close>. The product is JavaScript's, and
  the transform is scaled by the same ratio. A region of 100 by 100 rendered pixels at
  device pixel ratio 2 gives a canvas of 200 by 200. When the image is rendered at its
  natural size, the source rectangle of the drawing has the size of the region.
\<close>

theorem crop_raster_size:
  "canvas_width (crop_canvas c img dpr)
     = reflect_unsigned_long 300 (js_times (crop_width c) (pixelRatio dpr))
   \<and> canvas_height (crop_canvas c img dpr)
     = reflect_unsigned_long 150 (js_times (crop_height c) (pixelRatio dpr))
   \<and> (0 \<le> js_times (crop_width c) (pixelRatio dpr)
        \<and> js_times (crop_width c) (pixelRatio dpr) < 2147483648 \<longrightarrow>
        int (canvas_width (crop_canvas c img dpr)) = \<lfloor>js_times (crop_width c) (pixelRatio dpr)\<rfloor>)
   \<and> (0 \<le> js_times (crop_height c) (pixelRatio dpr)
        \<and> js_times (crop_height c) (pixelRatio dpr) < 2147483648 \<longrightarrow>
        int (canvas_height (crop_canvas c img dpr)) = \<lfloor>js_times (crop_height c) (pixelRatio dpr)\<rfloor>)
   \<and> canvas_transform (crop_canvas c img dpr) = [pixelRatio dpr, 0, 0, pixelRatio dpr, 0, 0]
   \<and> (dpr \<noteq> 0 \<longrightarrow> pixelRatio dpr = dpr)
   \<and> (crop_width c = 100 \<and> crop_height c = 100 \<and> dpr = 2 \<longrightarrow>
        canvas_width (crop_canvas c img dpr) = 200 \<and> canvas_height (crop_canvas c img dpr) = 200)
   \<and> (img_width img = naturalWidth img \<and> img_height img = naturalHeight img
        \<and> img_width img \<noteq> 0 \<and> img_height img \<noteq> 0 \<longrightarrow>
        map_option draw_sw (drawn (crop_canvas c img dpr)) = Some (Fin (b64 (crop_width c)))
      \<and> map_option draw_sh (drawn (crop_canvas c img dpr)) = Some (Fin (b64 (crop_height c))))"
proof -
  have w: "canvas_width (crop_canvas c img dpr)
     = reflect_unsigned_long 300 (js_times (crop_width c) (pixelRatio dpr))"
    and h: "canvas_height (crop_canvas c img dpr)
     = reflect_unsigned_long 150 (js_times (crop_height c) (pixelRatio dpr))"
    and t: "canvas_transform (crop_canvas c img dpr) = [pixelRatio dpr, 0, 0, pixelRatio dpr, 0, 0]"
    by (simp_all add: crop_canvas_def new_canvas_def Let_def)
  have r: "dpr \<noteq> 0 \<longrightarrow> pixelRatio dpr = dpr"
    by (simp add: pixelRatio_def)
  have wi: "0 \<le> js_times (crop_width c) (pixelRatio dpr)
        \<and> js_times (crop_width c) (pixelRatio dpr) < 2147483648 \<longrightarrow>
        int (canvas_width (crop_canvas c img dpr)) = \<lfloor>js_times (crop_width c) (pixelRatio dpr)\<rfloor>"
    using reflect_in_range [of "js_times (crop_width c) (pixelRatio dpr)" 300] w by simp
  have hi: "0 \<le> js_times (crop_height c) (pixelRatio dpr)
        \<and> js_times (crop_height c) (pixelRatio dpr) < 2147483648 \<longrightarrow>
        int (canvas_height (crop_canvas c img dpr)) = \<lfloor>js_times (crop_height c) (pixelRatio dpr)\<rfloor>"
    using reflect_in_range [of "js_times (crop_height c) (pixelRatio dpr)" 150] h by simp
  have ex: "crop_width c = 100 \<and> crop_height c = 100 \<and> dpr = 2 \<longrightarrow>
        canvas_width (crop_canvas c img dpr) = 200 \<and> canvas_height (crop_canvas c img dpr) = 200"
  proof (intro impI, elim conjE)
    assume "crop_width c = 100" "crop_height c = 100" "dpr = 2"
    with w h show "canvas_width (crop_canvas c img dpr) = 200 \<and> canvas_height (crop_canvas c img dpr) = 200"
      by (simp add: pixelRatio_def b64_products reflect_values)
  qed
  have nat_size: "img_width img = naturalWidth img \<and> img_height img = naturalHeight img
        \<and> img_width img \<noteq> 0 \<and> img_height img \<noteq> 0 \<longrightarrow>
        map_option draw_sw (drawn (crop_canvas c img dpr)) = Some (Fin (b64 (crop_width c)))
      \<and> map_option draw_sh (drawn (crop_canvas c img dpr)) = Some (Fin (b64 (crop_height c)))"
    by (simp add: crop_canvas_def new_canvas_def Let_def js_div_def js_times_def b64_values)
  from w h wi hi t r ex nat_size show ?thesis
    by (intro conjI)
qed

theorem crop_raster_size_witness:
  "crop_width crop_100 = 100 \<and> crop_height crop_100 = 100 \<and> (2::real) \<noteq> 0
   \<and> img_width img_full = naturalWidth img_full \<and> img_height img_full = naturalHeight img_full
   \<and> img_width img_full \<noteq> 0 \<and> img_height img_full \<noteq> 0
   \<and> canvas_width (crop_canvas crop_100 img_full 2) = 200
   \<and> canvas_height (crop_canvas crop_100 img_full 2) = 200
   \<and> map_option draw_sw (drawn (crop_canvas crop_100 img_full 2)) = Some (Fin 100)
   \<and> js_times (crop_width crop_fraction) (pixelRatio (3 / 2)) = 201 / 4
   \<and> canvas_width (crop_canvas crop_fraction img_half (3 / 2)) = 50
   \<and> canvas_height (crop_canvas crop_fraction img_half (3 / 2)) = 150
   \<and> js_times (crop_width crop_100) (pixelRatio (b64 (23 / 20))) < 115
   \<and> canvas_width (crop_canvas crop_100 img_half (b64 (23 / 20))) = 114"
proof -
  have p: "pixelRatio (3 / 2) = 3 / 2" "pixelRatio 2 = 2"
    by (simp_all add: pixelRatio_def)
  have n: "b64 (23 / 20) \<noteq> 0" "b64 100 = 100"
    by code_simp+
  then have q: "pixelRatio (b64 (23 / 20)) = b64 (23 / 20)"
    by (simp add: pixelRatio_def)
  have f: "\<lfloor>js_times 100 (b64 (23 / 20))\<rfloor> = 114"
    using b64_products(5,6) by (simp add: floor_eq_iff)
  have c: "crop_width crop_100 = 100" "crop_height crop_100 = 100"
    "crop_width crop_fraction = 67 / 2" "crop_height crop_fraction = 100"
    "img_width img_full = naturalWidth img_full" "img_height img_full = naturalHeight img_full"
    "img_width img_full \<noteq> 0" "img_height img_full \<noteq> 0"
    by (simp_all add: crop_100_def crop_fraction_def img_full_def)
  have 1: "canvas_width (crop_canvas crop_100 img_full 2) = 200
      \<and> canvas_height (crop_canvas crop_100 img_full 2) = 200
      \<and> map_option draw_sw (drawn (crop_canvas crop_100 img_full 2)) = Some (Fin 100)"
    using crop_raster_size [where c = crop_100 and img = img_full and dpr = 2] c n p
    by (simp add: b64_products reflect_values)
  have 2: "canvas_width (crop_canvas crop_fraction img_half (3 / 2)) = 50
      \<and> canvas_height (crop_canvas crop_fraction img_half (3 / 2)) = 150"
    using crop_raster_size [where c = crop_fraction and img = img_half and dpr = "3 / 2"] c p
    by (simp add: b64_products reflect_values)
  have b: "0 \<le> js_times 100 (b64 (23 / 20))" "js_times 100 (b64 (23 / 20)) < 2147483648"
    using b64_products(5,6) by linarith+
  have 3: "canvas_width (crop_canvas crop_100 img_half (b64 (23 / 20))) = 114"
    using crop_raster_size [where c = crop_100 and img = img_half and dpr = "b64 (23 / 20)"]
      c q f b
    by simp
  have j: "js_times (crop_width crop_fraction) (pixelRatio (3 / 2)) = 201 / 4"
    "js_times (crop_width crop_100) (pixelRatio (b64 (23 / 20))) < 115"
    by (simp_all only: c p q b64_products)
  have z: "(2::real) \<noteq> 0"
    by simp
  from c 1 2 3 j z show ?thesis
    by blast
qed

section \<open>Properties of the edit requests\<close>

lemma generate_resume_failed:
  "outcome = Inl e \<or> (\<exists>url. outcome = Inr url
      \<and> dataURLtoFile atob url (''modifiee-'' @ decimal now @ ''.png'') = Inl e) \<Longrightarrow>
   handleGenerate_resume atob now r outcome s
     = s\<lparr>error := Some (GenerationFailed (errorMessage e)), isLoading := False\<rparr>"
  by (auto simp: handleGenerate_resume_def)

lemma filter_resume_failed:
  "outcome = Inl e \<or> (\<exists>url. outcome = Inr url
      \<and> dataURLtoFile atob url (''filtree-'' @ decimal now @ ''.png'') = Inl e) \<Longrightarrow>
   handleApplyFilter_resume atob now r outcome s
     = s\<lparr>error := Some (FilterFailed (errorMessage e)), isLoading := False\<rparr>"
  by (auto simp: handleApplyFilter_resume_def)

lemma adjustment_resume_failed:
  "outcome = Inl e \<or> (\<exists>url. outcome = Inr url
      \<and> dataURLtoFile atob url (''ajustee-'' @ decimal now @ ''.png'') = Inl e) \<Longrightarrow>
   handleApplyAdjustment_resume atob now r outcome s
     = s\<lparr>error := Some (AdjustmentFailed (errorMessage e)), isLoading := False\<rparr>"
  by (auto simp: handleApplyAdjustment_resume_def)

text \<open>
  C3. A request that fails validation (no current image; for a retouch also a blank
  instruction or no hotspot; for a crop no region, no image element or no drawing context)
  starts no service call, reports an error and leaves the history, the cursor and
  \<open>isLoading\<close> as they were. When the service call is rejected, or its result cannot be
  decoded, the handler reports the reason, sets \<open>isLoading\<close> to false and leaves the
  history and the cursor as they were. A crop whose result cannot be decoded throws the
  reason before any state is written.
\<close>

theorem failed_edit_keeps_history:
  "(snd (handleGenerate_begin s) = None \<longleftrightarrow>
      currentImage s = None \<or> js_trim (prompt s) = [] \<or> editHotspot s = None)
   \<and> (snd (handleGenerate_begin s) = None \<longrightarrow>
        history (fst (handleGenerate_begin s)) = history s
      \<and> historyIndex (fst (handleGenerate_begin s)) = historyIndex s
      \<and> isLoading (fst (handleGenerate_begin s)) = isLoading s
      \<and> error (fst (handleGenerate_begin s)) \<in> {Some NoImageToEdit, Some EmptyPrompt, Some NoHotspot})
   \<and> (currentImage s = None \<longrightarrow>
        handleApplyFilter_begin q s = (s\<lparr>error := Some NoImageForFilter\<rparr>, None)
      \<and> handleApplyAdjustment_begin q s = (s\<lparr>error := Some NoImageForAdjustment\<rparr>, None))
   \<and> (completedCrop s = None \<or> imgRef = None \<or> \<not> has_ctx \<longrightarrow>
        (\<exists>s'. handleApplyCrop toDataURL atob now dpr has_ctx imgRef s = Inr s'
           \<and> history s' = history s \<and> historyIndex s' = historyIndex s
           \<and> isLoading s' = isLoading s
           \<and> error s' \<in> {Some NoCropSelected, Some CropContextFailed}))
   \<and> (outcome = Inl e \<or> (\<exists>url. outcome = Inr url
          \<and> dataURLtoFile atob url (''modifiee-'' @ decimal now @ ''.png'') = Inl e) \<longrightarrow>
        history (handleGenerate_resume atob now r outcome s) = history s
      \<and> historyIndex (handleGenerate_resume atob now r outcome s) = historyIndex s
      \<and> \<not> isLoading (handleGenerate_resume atob now r outcome s)
      \<and> error (handleGenerate_resume atob now r outcome s) = Some (GenerationFailed (errorMessage e)))
   \<and> (outcome = Inl e \<or> (\<exists>url. outcome = Inr url
          \<and> dataURLtoFile atob url (''filtree-'' @ decimal now @ ''.png'') = Inl e) \<longrightarrow>
        history (handleApplyFilter_resume atob now r outcome s) = history s
      \<and> historyIndex (handleApplyFilter_resume atob now r outcome s) = historyIndex s
      \<and> \<not> isLoading (handleApplyFilter_resume atob now r outcome s)
      \<and> error (handleApplyFilter_resume atob now r outcome s) = Some (FilterFailed (errorMessage e)))
   \<and> (outcome = Inl e \<or> (\<exists>url. outcome = Inr url
          \<and> dataURLtoFile atob url (''ajustee-'' @ decimal now @ ''.png'') = Inl e) \<longrightarrow>
        history (handleApplyAdjustment_resume atob now r outcome s) = history s
      \<and> historyIndex (handleApplyAdjustment_resume atob now r outcome s) = historyIndex s
      \<and> \<not> isLoading (handleApplyAdjustment_resume atob now r outcome s)
      \<and> error (handleApplyAdjustment_resume atob now r outcome s)
          = Some (AdjustmentFailed (errorMessage e)))
   \<and> (completedCrop s = Some c \<and> imgRef = Some img \<and> has_ctx
        \<and> dataURLtoFile atob (toDataURL (crop_canvas c img dpr)) (''rognee-'' @ decimal now @ ''.png'')
            = Inl e \<longrightarrow>
        handleApplyCrop toDataURL atob now dpr has_ctx imgRef s = Inl e)"
proof -
  have v1: "snd (handleGenerate_begin s) = None \<longleftrightarrow>
      currentImage s = None \<or> js_trim (prompt s) = [] \<or> editHotspot s = None"
    by (auto simp: handleGenerate_begin_def split: option.splits)
  have v2: "snd (handleGenerate_begin s) = None \<longrightarrow>
        history (fst (handleGenerate_begin s)) = history s
      \<and> historyIndex (fst (handleGenerate_begin s)) = historyIndex s
      \<and> isLoading (fst (handleGenerate_begin s)) = isLoading s
      \<and> error (fst (handleGenerate_begin s)) \<in> {Some NoImageToEdit, Some EmptyPrompt, Some NoHotspot}"
    by (auto simp: handleGenerate_begin_def split: option.splits)
  have v3: "currentImage s = None \<longrightarrow>
        handleApplyFilter_begin q s = (s\<lparr>error := Some NoImageForFilter\<rparr>, None)
      \<and> handleApplyAdjustment_begin q s = (s\<lparr>error := Some NoImageForAdjustment\<rparr>, None)"
    by (simp add: handleApplyFilter_begin_def handleApplyAdjustment_begin_def)
  have v4: "completedCrop s = None \<or> imgRef = None \<or> \<not> has_ctx \<longrightarrow>
        (\<exists>s'. handleApplyCrop toDataURL atob now dpr has_ctx imgRef s = Inr s'
           \<and> history s' = history s \<and> historyIndex s' = historyIndex s
           \<and> isLoading s' = isLoading s
           \<and> error s' \<in> {Some NoCropSelected, Some CropContextFailed})"
    by (auto simp: handleApplyCrop_def split: option.splits)
  have f1: "outcome = Inl e \<or> (\<exists>url. outcome = Inr url
          \<and> dataURLtoFile atob url (''modifiee-'' @ decimal now @ ''.png'') = Inl e) \<longrightarrow>
        history (handleGenerate_resume atob now r outcome s) = history s
      \<and> historyIndex (handleGenerate_resume atob now r outcome s) = historyIndex s
      \<and> \<not> isLoading (handleGenerate_resume atob now r outcome s)
      \<and> error (handleGenerate_resume atob now r outcome s) = Some (GenerationFailed (errorMessage e))"
    using generate_resume_failed [of outcome e atob now r s] by simp
  have f2: "outcome = Inl e \<or> (\<exists>url. outcome = Inr url
          \<and> dataURLtoFile atob url (''filtree-'' @ decimal now @ ''.png'') = Inl e) \<longrightarrow>
        history (handleApplyFilter_resume atob now r outcome s) = history s
      \<and> historyIndex (handleApplyFilter_resume atob now r outcome s) = historyIndex s
      \<and> \<not> isLoading (handleApplyFilter_resume atob now r outcome s)
      \<and> error (handleApplyFilter_resume atob now r outcome s) = Some (FilterFailed (errorMessage e))"
    using filter_resume_failed [of outcome e atob now r s] by simp
  have f3: "outcome = Inl e \<or> (\<exists>url. outcome = Inr url
          \<and> dataURLtoFile atob url (''ajustee-'' @ decimal now @ ''.png'') = Inl e) \<longrightarrow>
        history (handleApplyAdjustment_resume atob now r outcome s) = history s
      \<and> historyIndex (handleApplyAdjustment_resume atob now r outcome s) = historyIndex s
      \<and> \<not> isLoading (handleApplyAdjustment_resume atob now r outcome s)
      \<and> error (handleApplyAdjustment_resume atob now r outcome s)
          = Some (AdjustmentFailed (errorMessage e))"
    using adjustment_resume_failed [of outcome e atob now r s] by simp
  have f4: "completedCrop s = Some c \<and> imgRef = Some img \<and> has_ctx
        \<and> dataURLtoFile atob (toDataURL (crop_canvas c img dpr)) (''rognee-'' @ decimal now @ ''.png'')
            = Inl e \<longrightarrow>
        handleApplyCrop toDataURL atob now dpr has_ctx imgRef s = Inl e"
    by (simp add: handleApplyCrop_def Let_def)
  from v1 v2 v3 v4 f1 f2 f3 f4 show ?thesis
    by (intro conjI)
qed

theorem failed_edit_keeps_history_witness:
  "currentImage initial_state = None \<and> completedCrop initial_state = None
   \<and> snd (handleGenerate_begin initial_state) = None
   \<and> history (fst (handleGenerate_begin initial_state)) = []
   \<and> error (fst (handleGenerate_begin initial_state)) = Some NoImageToEdit
   \<and> handleApplyFilter_begin ''sepia'' initial_state
        = (initial_state\<lparr>error := Some NoImageForFilter\<rparr>, None)
   \<and> (\<exists>s'. handleApplyCrop toDataURL_AQ atob_AQ 1700 2 True None initial_state = Inr s'
         \<and> history s' = [] \<and> error s' = Some NoCropSelected)
   \<and> history (handleGenerate_resume atob_AQ 1700 state_ABC
        (Inl (Error (RequestBlocked ''SAFETY'' []))) state_loading) = [fileA, fileB, fileC]
   \<and> historyIndex (handleGenerate_resume atob_AQ 1700 state_ABC
        (Inl (Error (RequestBlocked ''SAFETY'' []))) state_loading) = 2
   \<and> \<not> isLoading (handleGenerate_resume atob_AQ 1700 state_ABC
        (Inl (Error (RequestBlocked ''SAFETY'' []))) state_loading)
   \<and> error (handleGenerate_resume atob_AQ 1700 state_ABC
        (Inl (Error (RequestBlocked ''SAFETY'' []))) state_loading)
        = Some (GenerationFailed (Message (RequestBlocked ''SAFETY'' [])))
   \<and> dataURLtoFile atob_AQ ''data:,'' (''filtree-'' @ decimal 1700 @ ''.png'') = Inl (Error MimeParseFailed)
   \<and> history (handleApplyFilter_resume atob_AQ 1700 state_ABC (Inr ''data:,'') state_loading)
        = [fileA, fileB, fileC]
   \<and> error (handleApplyFilter_resume atob_AQ 1700 state_ABC (Inr ''data:,'') state_loading)
        = Some (FilterFailed (Message MimeParseFailed))
   \<and> history (handleApplyAdjustment_resume atob_AQ 1700 state_ABC (Inr ''data:,'') state_loading)
        = [fileA, fileB, fileC]
   \<and> handleApplyCrop toDataURL_AQ atob_AQ 1700 2 True (Some img_half)
        (state_marked\<lparr>completedCrop := Some crop_empty\<rparr>) = Inl (Error MimeParseFailed)"
proof -
  let ?blocked = "Error (RequestBlocked ''SAFETY'' [])"
  let ?zero = "state_marked\<lparr>completedCrop := Some crop_empty\<rparr>"
  have n: "currentImage initial_state = None" "completedCrop initial_state = None"
    "history initial_state = []"
    by (simp_all add: initial_state_def currentImage_def js_index_def)
  have l: "history state_loading = [fileA, fileB, fileC]" "historyIndex state_loading = 2"
    by (simp_all add: state_loading_def state_ABC_def)
  have d: "dataURLtoFile atob_AQ ''data:,'' (''modifiee-'' @ decimal 1700 @ ''.png'') = Inl (Error MimeParseFailed)"
    "dataURLtoFile atob_AQ ''data:,'' (''filtree-'' @ decimal 1700 @ ''.png'') = Inl (Error MimeParseFailed)"
    "dataURLtoFile atob_AQ ''data:,'' (''ajustee-'' @ decimal 1700 @ ''.png'') = Inl (Error MimeParseFailed)"
    "dataURLtoFile atob_AQ ''data:,'' (''rognee-'' @ decimal 1700 @ ''.png'') = Inl (Error MimeParseFailed)"
    by (simp_all add: dataURLtoFile_def Let_def)
  have z: "completedCrop ?zero = Some crop_empty"
    "toDataURL_AQ (crop_canvas crop_empty img_half 2) = ''data:,''"
    by (simp_all add: toDataURL_AQ_def crop_canvas_def crop_empty_def new_canvas_def Let_def
        js_times_def b64_def reflect_values)
  have a: "snd (handleGenerate_begin initial_state) = None
      \<and> history (fst (handleGenerate_begin initial_state)) = []
      \<and> error (fst (handleGenerate_begin initial_state)) = Some NoImageToEdit
      \<and> handleApplyFilter_begin ''sepia'' initial_state
          = (initial_state\<lparr>error := Some NoImageForFilter\<rparr>, None)
      \<and> (\<exists>s'. handleApplyCrop toDataURL_AQ atob_AQ 1700 2 True None initial_state = Inr s'
         \<and> history s' = [] \<and> error s' = Some NoCropSelected)"
    using failed_edit_keeps_history [where s = initial_state and q = "''sepia''" and imgRef = None
        and has_ctx = True and toDataURL = toDataURL_AQ and atob = atob_AQ and now = 1700
        and dpr = 2 and outcome = "Inl ?blocked" and e = ?blocked and r = state_ABC] n
    by (auto simp: handleGenerate_begin_def handleApplyCrop_def)
  have b: "history (handleGenerate_resume atob_AQ 1700 state_ABC (Inl ?blocked) state_loading)
        = [fileA, fileB, fileC]
      \<and> historyIndex (handleGenerate_resume atob_AQ 1700 state_ABC (Inl ?blocked) state_loading) = 2
      \<and> \<not> isLoading (handleGenerate_resume atob_AQ 1700 state_ABC (Inl ?blocked) state_loading)
      \<and> error (handleGenerate_resume atob_AQ 1700 state_ABC (Inl ?blocked) state_loading)
          = Some (GenerationFailed (Message (RequestBlocked ''SAFETY'' [])))"
    using failed_edit_keeps_history [where s = state_loading and outcome = "Inl ?blocked"
        and e = ?blocked and r = state_ABC and atob = atob_AQ and now = 1700] l
    by simp
  have c: "history (handleApplyFilter_resume atob_AQ 1700 state_ABC (Inr ''data:,'') state_loading)
        = [fileA, fileB, fileC]
      \<and> error (handleApplyFilter_resume atob_AQ 1700 state_ABC (Inr ''data:,'') state_loading)
        = Some (FilterFailed (Message MimeParseFailed))
      \<and> history (handleApplyAdjustment_resume atob_AQ 1700 state_ABC (Inr ''data:,'') state_loading)
        = [fileA, fileB, fileC]"
    using failed_edit_keeps_history [where s = state_loading and outcome = "Inr ''data:,''"
        and e = "Error MimeParseFailed" and r = state_ABC and atob = atob_AQ and now = 1700] l d
    by simp
  have e: "handleApplyCrop toDataURL_AQ atob_AQ 1700 2 True (Some img_half) ?zero
        = Inl (Error MimeParseFailed)"
    using failed_edit_keeps_history [where s = ?zero and c = crop_empty and imgRef = "Some img_half"
        and img = img_half and has_ctx = True and toDataURL = toDataURL_AQ and atob = atob_AQ
        and now = 1700 and dpr = 2 and e = "Error MimeParseFailed"] z d
    by simp
  from n d a b c e show ?thesis
    by simp
qed

lemma resume_not_loading:
  "\<not> isLoading (handleGenerate_resume atob now r outcome s)"
  "\<not> isLoading (handleApplyFilter_resume atob now r outcome s)"
  "\<not> isLoading (handleApplyAdjustment_resume atob now r outcome s)"
  unfolding handleGenerate_resume_def handleApplyFilter_resume_def handleApplyAdjustment_resume_def
  by (simp_all split: sum.split)

lemma settle_not_loading: "\<not> isLoading (settle atob now req r outcome s)"
  by (cases req) (simp_all add: settle_def resume_not_loading)

lemma crop_keeps_loading:
  assumes "handleApplyCrop toDataURL atob now dpr has_ctx imgRef s = Inr s'"
  shows "isLoading s' = isLoading s \<and> activeTab s' = activeTab s"
proof (cases "completedCrop s")
  case None
  with assms show ?thesis
    by (auto simp: handleApplyCrop_def)
next
  case c: (Some c)
  show ?thesis
  proof (cases imgRef)
    case None
    with c assms show ?thesis
      by (auto simp: handleApplyCrop_def)
  next
    case i: (Some img)
    show ?thesis
    proof (cases has_ctx)
      case False
      with c i assms show ?thesis
        by (auto simp: handleApplyCrop_def)
    next
      case True
      show ?thesis
      proof (cases "dataURLtoFile atob (toDataURL (crop_canvas c img dpr)) (''rognee-'' @ decimal now @ ''.png'')")
        case (Inl e)
        with c i True assms show ?thesis
          by (simp add: handleApplyCrop_def Let_def)
      next
        case (Inr f)
        with c i True assms have "s' = addImageToHistory s f s"
          by (simp add: handleApplyCrop_def Let_def)
        then show ?thesis
          by (simp add: addImageToHistory_def Let_def)
      qed
    qed
  qed
qed

lemma generate_begin_cases:
  "(snd (handleGenerate_begin s) \<noteq> None \<and> isLoading (fst (handleGenerate_begin s))
      \<or> snd (handleGenerate_begin s) = None
        \<and> isLoading (fst (handleGenerate_begin s)) = isLoading s)
   \<and> activeTab (fst (handleGenerate_begin s)) = activeTab s
   \<and> history (fst (handleGenerate_begin s)) = history s
   \<and> historyIndex (fst (handleGenerate_begin s)) = historyIndex s"
  by (simp add: handleGenerate_begin_def split: option.split)

lemma adjustment_begin_cases:
  "(snd (handleApplyAdjustment_begin fp s) \<noteq> None
        \<and> isLoading (fst (handleApplyAdjustment_begin fp s))
      \<or> snd (handleApplyAdjustment_begin fp s) = None
        \<and> isLoading (fst (handleApplyAdjustment_begin fp s)) = isLoading s)
   \<and> activeTab (fst (handleApplyAdjustment_begin fp s)) = activeTab s
   \<and> history (fst (handleApplyAdjustment_begin fp s)) = history s
   \<and> historyIndex (fst (handleApplyAdjustment_begin fp s)) = historyIndex s"
  by (simp add: handleApplyAdjustment_begin_def split: option.split)

lemma begin_sets_loading:
  "handleGenerate_begin s = (s', Some req) \<Longrightarrow> isLoading s' \<and> activeTab s' = activeTab s \<and> history s' = history s \<and> historyIndex s' = historyIndex s"
  "handleGenerate_begin s = (s', None) \<Longrightarrow> isLoading s' = isLoading s \<and> activeTab s' = activeTab s \<and> history s' = history s \<and> historyIndex s' = historyIndex s"
  "handleApplyAdjustment_begin fp s = (s', Some req) \<Longrightarrow> isLoading s' \<and> activeTab s' = activeTab s \<and> history s' = history s \<and> historyIndex s' = historyIndex s"
  "handleApplyAdjustment_begin fp s = (s', None) \<Longrightarrow> isLoading s' = isLoading s \<and> activeTab s' = activeTab s \<and> history s' = history s \<and> historyIndex s' = historyIndex s"
  using generate_begin_cases [of s] adjustment_begin_cases [of fp s]
  by auto

text \<open>
  The invariant of the page under the controls of the sources: at most one request is in
  flight, \<open>isLoading\<close> tells whether one is, and while one is the crop tab is not open
  and an image is loaded.
\<close>

lemma single_flight_step:
  assumes "own_control ev"
    and "length q \<le> 1" and "q \<noteq> [] \<longleftrightarrow> isLoading s"
    and "isLoading s \<longrightarrow> activeTab s \<noteq> Crop \<and> currentImage s \<noteq> None"
    and "page_event toDataURL atob ev (s, q) = (s', q')"
  shows "length q' \<le> 1 \<and> (q' \<noteq> [] \<longleftrightarrow> isLoading s')
    \<and> (isLoading s' \<longrightarrow> activeTab s' \<noteq> Crop \<and> currentImage s' \<noteq> None)"
proof (cases ev)
  case (FileSelect files)
  with assms show ?thesis
    by (auto simp: startScreen_select_def handleImageUpload_def currentImage_def js_index_def
        split: list.splits if_splits)
next
  case (PromptChange v)
  with assms show ?thesis
    by (auto simp: promptField_change_def currentImage_def split: if_splits)
next
  case (ImageClick e)
  with assms show ?thesis
    by (auto simp: image_click_def handleImageClick_def Let_def currentImage_def split: if_splits)
next
  case GenerateClick
  obtain s1 r1 where g: "generateButton_click s = (s1, r1)"
    by (cases "generateButton_click s")
  show ?thesis
  proof (cases "currentImage s = None \<or> activeTab s \<noteq> Retouch \<or> generateButton_disabled s")
    case True
    with g assms GenerateClick show ?thesis
      by (auto simp: generateButton_click_def started_def)
  next
    case False
    then have n: "\<not> isLoading s" "activeTab s = Retouch" "currentImage s \<noteq> None"
      and b: "handleGenerate_begin s = (s1, r1)"
      using g by (auto simp: generateButton_click_def generateButton_disabled_def)
    from n assms have e: "q = []"
      by simp
    show ?thesis
    proof (cases r1)
      case None
      with b begin_sets_loading(2) [of s s1] n e assms GenerateClick g show ?thesis
        by (auto simp: started_def currentImage_def)
    next
      case (Some req)
      with b begin_sets_loading(1) [of s s1 req] n e assms GenerateClick g show ?thesis
        by (auto simp: started_def currentImage_def)
    qed
  qed
next
  case (AdjustmentApplyClick p)
  obtain s1 r1 where g: "applyAdjustmentButton_click p s = (s1, r1)"
    by (cases "applyAdjustmentButton_click p s")
  show ?thesis
  proof (cases "currentImage s = None \<or> activeTab s \<noteq> Adjust \<or> activePrompt p = []
         \<or> isLoading s \<or> js_trim (activePrompt p) = []")
    case True
    with g assms AdjustmentApplyClick show ?thesis
      by (auto simp: applyAdjustmentButton_click_def started_def)
  next
    case False
    then have n: "\<not> isLoading s" "activeTab s = Adjust" "currentImage s \<noteq> None"
      and b: "handleApplyAdjustment_begin (activePrompt p) s = (s1, r1)"
      using g by (auto simp: applyAdjustmentButton_click_def handleApply_def)
    from n assms have e: "q = []"
      by simp
    show ?thesis
    proof (cases r1)
      case None
      with b begin_sets_loading(4) [of "activePrompt p" s s1] n e assms AdjustmentApplyClick g
      show ?thesis
        by (auto simp: started_def currentImage_def)
    next
      case (Some req)
      with b begin_sets_loading(3) [of "activePrompt p" s s1 req] n e assms AdjustmentApplyClick g
      show ?thesis
        by (auto simp: started_def currentImage_def)
    qed
  qed
next
  case (FilterApplyCall fp)
  with assms show ?thesis
    by simp
next
  case (CropApplyCall now dpr has_ctx img)
  show ?thesis
  proof (cases "currentImage s = None \<or> activeTab s \<noteq> Crop")
    case True
    with assms CropApplyCall show ?thesis
      by (auto simp: cropPanel_apply_def)
  next
    case False
    with assms have n: "\<not> isLoading s"
      by auto
    show ?thesis
    proof (cases "handleApplyCrop toDataURL atob now dpr has_ctx (imgRef_current img s) s")
      case (Inl err)
      with False assms CropApplyCall show ?thesis
        by (auto simp: cropPanel_apply_def)
    next
      case (Inr s2)
      with False assms CropApplyCall crop_keeps_loading [OF Inr] n show ?thesis
        by (auto simp: cropPanel_apply_def)
    qed
  qed
next
  case (AspectCall a)
  with assms show ?thesis
    by (auto simp: cropPanel_setAspect_def currentImage_def split: if_splits)
next
  case (CropChange c)
  with assms show ?thesis
    by (auto simp: cropSelection_change_def currentImage_def split: if_splits)
next
  case (CropComplete c)
  with assms show ?thesis
    by (auto simp: cropSelection_complete_def currentImage_def split: if_splits)
next
  case (TabClick t)
  with assms show ?thesis
    by (auto simp: tabButton_click_def handleTabChange_def Let_def currentImage_def split: if_splits)
next
  case UndoClick
  with assms show ?thesis
    by (auto simp: undoButton_click_def handleUndo_def split: if_splits)
next
  case RedoClick
  with assms show ?thesis
    by (auto simp: redoButton_click_def handleRedo_def split: if_splits)
next
  case (ResetClick confirmed)
  with assms show ?thesis
    by (auto simp: resetButton_click_def handleReset_def split: if_splits)
next
  case (NewImageClick confirmed)
  with assms show ?thesis
    by (auto simp: newImageButton_click_def handleNewImage_def split: if_splits)
next
  case SideBySideClick
  with assms show ?thesis
    by (auto simp: sideBySideButton_click_def currentImage_def split: if_splits)
next
  case ComparePress
  with assms show ?thesis
    by (auto simp: compareButton_press_def currentImage_def split: if_splits)
next
  case CompareRelease
  with assms show ?thesis
    by (auto simp: compareButton_release_def currentImage_def split: if_splits)
next
  case (Settled i now outcome)
  show ?thesis
  proof (cases "i < length q")
    case True
    with assms have "q' = []" "s' = settle atob now (fst (q ! i)) (snd (q ! i)) outcome s"
      using Settled by (cases q; auto)+
    with settle_not_loading show ?thesis
      by simp
  next
    case False
    with assms Settled show ?thesis
      by auto
  qed
qed

lemma single_flight_run:
  assumes "\<forall>ev \<in> set evs. own_control ev"
  shows "length (snd (run_events toDataURL atob evs)) \<le> 1
    \<and> (snd (run_events toDataURL atob evs) \<noteq> [] \<longleftrightarrow> isLoading (fst (run_events toDataURL atob evs)))
    \<and> (isLoading (fst (run_events toDataURL atob evs)) \<longrightarrow>
         activeTab (fst (run_events toDataURL atob evs)) \<noteq> Crop
       \<and> currentImage (fst (run_events toDataURL atob evs)) \<noteq> None)"
  using assms
proof (induction evs rule: rev_induct)
  case Nil
  show ?case
    by (simp add: run_events_def initial_state_def)
next
  case (snoc ev evs)
  obtain s q where p: "run_events toDataURL atob evs = (s, q)"
    by (cases "run_events toDataURL atob evs")
  obtain s' q' where p': "page_event toDataURL atob ev (s, q) = (s', q')"
    by (cases "page_event toDataURL atob ev (s, q)")
  from snoc p have "length q \<le> 1" "q \<noteq> [] \<longleftrightarrow> isLoading s"
    "isLoading s \<longrightarrow> activeTab s \<noteq> Crop \<and> currentImage s \<noteq> None" "own_control ev"
    by simp_all
  from single_flight_step [OF this(4) this(1) this(2) this(3) p'] p p' show ?case
    by (simp add: run_events_snoc)
qed

lemma loading_blocks:
  assumes "isLoading s" and "activeTab s \<noteq> Crop" and "currentImage s \<noteq> None"
    and "own_control ev" and "\<forall>i now outcome. ev \<noteq> Settled i now outcome"
  shows "snd (page_event toDataURL atob ev (s, q)) = q
    \<and> history (fst (page_event toDataURL atob ev (s, q))) = history s
    \<and> historyIndex (fst (page_event toDataURL atob ev (s, q))) = historyIndex s
    \<and> isLoading (fst (page_event toDataURL atob ev (s, q)))"
  using assms
  by (cases ev)
    (simp_all add: startScreen_select_def promptField_change_def image_click_def
      handleImageClick_def generateButton_click_def generateButton_disabled_def
      applyAdjustmentButton_click_def cropPanel_apply_def cropPanel_setAspect_def
      cropSelection_change_def cropSelection_complete_def tabButton_click_def
      undoButton_click_def redoButton_click_def resetButton_click_def newImageButton_click_def
      sideBySideButton_click_def compareButton_press_def compareButton_release_def started_def)

lemma handlers_ignore_loading:
  "snd (handleGenerate_begin (s\<lparr>isLoading := b\<rparr>)) = snd (handleGenerate_begin s)"
  "snd (handleApplyFilter_begin fp (s\<lparr>isLoading := b\<rparr>)) = snd (handleApplyFilter_begin fp s)"
  "snd (handleApplyAdjustment_begin fp (s\<lparr>isLoading := b\<rparr>)) = snd (handleApplyAdjustment_begin fp s)"
  by (simp_all add: handleGenerate_begin_def handleApplyFilter_begin_def
      handleApplyAdjustment_begin_def currentImage_def split: option.split)

text \<open>
  C4 as stated fails: the handlers do not look at \<open>isLoading\<close>. Called while a request
  is in flight, each of \<open>handleGenerate\<close>, \<open>handleApplyFilter\<close> and
  \<open>handleApplyAdjustment\<close> starts another service call. \<open>handleApplyFilter\<close> is handed
  to the filter panel as a callback: two calls of it in a row, on the filter tab, leave two
  requests in flight.
\<close>

theorem second_request_counterexample:
  "isLoading (state_ready\<lparr>isLoading := True\<rparr>)
   \<and> snd (handleGenerate_begin (state_ready\<lparr>isLoading := True\<rparr>))
        = Some (EditRequest fileA ''add hat'' \<lparr>px = Fin 1000, py = Fin 500\<rparr>)
   \<and> isLoading state_loading
   \<and> snd (handleApplyFilter_begin ''sepia'' state_loading) = Some (FilterRequest fileC ''sepia'')
   \<and> snd (handleApplyAdjustment_begin ''warmer'' state_loading) = Some (AdjustRequest fileC ''warmer'')
   \<and> map fst (snd (run_events toDataURL_AQ atob_AQ
        [FileSelect [fileA], TabClick Filters, FilterApplyCall ''sepia'', FilterApplyCall ''vivid'']))
        = [FilterRequest fileA ''sepia'', FilterRequest fileA ''vivid'']"
proof -
  have "map fst (snd (run_events toDataURL_AQ atob_AQ
        [FileSelect [fileA], TabClick Filters, FilterApplyCall ''sepia'', FilterApplyCall ''vivid'']))
        = [FilterRequest fileA ''sepia'', FilterRequest fileA ''vivid'']"
    by code_simp
  then show ?thesis
    by (simp add: state_ready_def state_loading_def state_ABC_def initial_state_def
        handleGenerate_begin_def handleApplyFilter_begin_def handleApplyAdjustment_begin_def
        currentImage_def js_index_def js_trim_def js_whitespace_def)
qed

text \<open>
  C4, amended. While a request is in flight the page disables its controls instead of
  guarding the handlers. A click on the retouch button, on the apply button of the
  adjustment panel or on a tab button then reaches no handler and changes nothing. In
  every state that the controls of the sources can reach, at most one request is in
  flight, \<open>isLoading\<close> tells whether one is, and while one is no event of these controls
  starts a second call, commits a snapshot or changes \<open>isLoading\<close>. The handlers
  themselves start the same call whatever \<open>isLoading\<close> holds.
\<close>

theorem controls_disabled_while_loading:
  "(isLoading s \<longrightarrow>
      generateButton_click s = (s, None)
    \<and> applyAdjustmentButton_click p s = (s, None)
    \<and> tabButton_click t s = s)
   \<and> snd (handleGenerate_begin (s\<lparr>isLoading := b\<rparr>)) = snd (handleGenerate_begin s)
   \<and> snd (handleApplyFilter_begin fp (s\<lparr>isLoading := b\<rparr>)) = snd (handleApplyFilter_begin fp s)
   \<and> snd (handleApplyAdjustment_begin fp (s\<lparr>isLoading := b\<rparr>))
        = snd (handleApplyAdjustment_begin fp s)
   \<and> ((\<forall>e \<in> set evs. own_control e) \<longrightarrow>
        length (snd (run_events toDataURL atob evs)) \<le> 1
      \<and> (snd (run_events toDataURL atob evs) \<noteq> [] \<longleftrightarrow> isLoading (fst (run_events toDataURL atob evs)))
      \<and> (isLoading (fst (run_events toDataURL atob evs)) \<and> own_control ev
           \<and> (\<forall>i now outcome. ev \<noteq> Settled i now outcome) \<longrightarrow>
           snd (page_event toDataURL atob ev (run_events toDataURL atob evs))
             = snd (run_events toDataURL atob evs)
         \<and> history (fst (page_event toDataURL atob ev (run_events toDataURL atob evs)))
             = history (fst (run_events toDataURL atob evs))
         \<and> historyIndex (fst (page_event toDataURL atob ev (run_events toDataURL atob evs)))
             = historyIndex (fst (run_events toDataURL atob evs))
         \<and> isLoading (fst (page_event toDataURL atob ev (run_events toDataURL atob evs)))))"
proof -
  have clicks: "isLoading s \<longrightarrow>
      generateButton_click s = (s, None)
    \<and> applyAdjustmentButton_click p s = (s, None)
    \<and> tabButton_click t s = s"
    by (simp add: generateButton_click_def generateButton_disabled_def
        applyAdjustmentButton_click_def tabButton_click_def)
  have run: "length (snd (run_events toDataURL atob evs)) \<le> 1
      \<and> (snd (run_events toDataURL atob evs) \<noteq> [] \<longleftrightarrow> isLoading (fst (run_events toDataURL atob evs)))
      \<and> (isLoading (fst (run_events toDataURL atob evs)) \<and> own_control ev
           \<and> (\<forall>i now outcome. ev \<noteq> Settled i now outcome) \<longrightarrow>
           snd (page_event toDataURL atob ev (run_events toDataURL atob evs))
             = snd (run_events toDataURL atob evs)
         \<and> history (fst (page_event toDataURL atob ev (run_events toDataURL atob evs)))
             = history (fst (run_events toDataURL atob evs))
         \<and> historyIndex (fst (page_event toDataURL atob ev (run_events toDataURL atob evs)))
             = historyIndex (fst (run_events toDataURL atob evs))
         \<and> isLoading (fst (page_event toDataURL atob ev (run_events toDataURL atob evs))))"
    if own: "\<forall>e \<in> set evs. own_control e"
  proof -
    obtain s0 q0 where p: "run_events toDataURL atob evs = (s0, q0)"
      by (cases "run_events toDataURL atob evs")
    from single_flight_run [OF own, of toDataURL atob] p
    have i: "length q0 \<le> 1" "q0 \<noteq> [] \<longleftrightarrow> isLoading s0"
      "isLoading s0 \<longrightarrow> activeTab s0 \<noteq> Crop \<and> currentImage s0 \<noteq> None"
      by simp_all
    have "snd (page_event toDataURL atob ev (s0, q0)) = q0
        \<and> history (fst (page_event toDataURL atob ev (s0, q0))) = history s0
        \<and> historyIndex (fst (page_event toDataURL atob ev (s0, q0))) = historyIndex s0
        \<and> isLoading (fst (page_event toDataURL atob ev (s0, q0)))"
      if "isLoading s0" "own_control ev" "\<forall>i now outcome. ev \<noteq> Settled i now outcome"
      using loading_blocks [of s0 ev toDataURL atob q0] that i by blast
    with i p show ?thesis
      by simp
  qed
  from clicks handlers_ignore_loading(1) [where s = s and b = b]
    handlers_ignore_loading(2,3) [where fp = fp and s = s and b = b] run
  show ?thesis
    by blast
qed

theorem controls_disabled_while_loading_witness:
  "generateButton_click state_ready
      = (state_ready\<lparr>isLoading := True, error := None\<rparr>,
         Some (EditRequest fileA ''add hat'' \<lparr>px = Fin 1000, py = Fin 500\<rparr>))
   \<and> run_events toDataURL_AQ atob_AQ (ready_events @ [GenerateClick])
      = (state_ready\<lparr>isLoading := True, error := None\<rparr>,
         [(EditRequest fileA ''add hat'' \<lparr>px = Fin 1000, py = Fin 500\<rparr>, state_ready)])
   \<and> isLoading (state_ready\<lparr>isLoading := True, error := None\<rparr>)
   \<and> generateButton_click (state_ready\<lparr>isLoading := True, error := None\<rparr>)
      = (state_ready\<lparr>isLoading := True, error := None\<rparr>, None)
   \<and> page_event toDataURL_AQ atob_AQ GenerateClick
        (run_events toDataURL_AQ atob_AQ (ready_events @ [GenerateClick]))
      = run_events toDataURL_AQ atob_AQ (ready_events @ [GenerateClick])
   \<and> snd (page_event toDataURL_AQ atob_AQ (AdjustmentApplyClick panel_preset)
        (run_events toDataURL_AQ atob_AQ (ready_events @ [GenerateClick])))
      = [(EditRequest fileA ''add hat'' \<lparr>px = Fin 1000, py = Fin 500\<rparr>, state_ready)]
   \<and> applyAdjustmentButton_click panel_preset (state_ABC\<lparr>activeTab := Adjust\<rparr>)
      = (state_ABC\<lparr>activeTab := Adjust, isLoading := True, error := None\<rparr>,
         Some (AdjustRequest fileC ''warmer''))
   \<and> applyAdjustmentButton_click panel_preset (state_ABC\<lparr>activeTab := Adjust, isLoading := True\<rparr>)
      = (state_ABC\<lparr>activeTab := Adjust, isLoading := True\<rparr>, None)"
proof -
  let ?l = "state_ready\<lparr>isLoading := True, error := None\<rparr>"
  let ?q = "[(EditRequest fileA ''add hat'' \<lparr>px = Fin 1000, py = Fin 500\<rparr>, state_ready)]"
  let ?a = "state_ABC\<lparr>activeTab := Adjust, isLoading := True\<rparr>"
  have g: "generateButton_click state_ready
      = (?l, Some (EditRequest fileA ''add hat'' \<lparr>px = Fin 1000, py = Fin 500\<rparr>))"
    by (simp add: generateButton_click_def generateButton_disabled_def handleGenerate_begin_def
        state_ready_def initial_state_def currentImage_def js_index_def js_trim_def js_whitespace_def)
  have r: "run_events toDataURL_AQ atob_AQ (ready_events @ [GenerateClick]) = (?l, ?q)"
    by (simp add: run_events_snoc ready_run started_def g)
  have own: "\<forall>e \<in> set (ready_events @ [GenerateClick]). own_control e"
    by (simp add: ready_events_def)
  have l: "isLoading ?l" "isLoading ?a"
    by simp_all
  have a: "applyAdjustmentButton_click panel_preset (state_ABC\<lparr>activeTab := Adjust\<rparr>)
      = (state_ABC\<lparr>activeTab := Adjust, isLoading := True, error := None\<rparr>,
         Some (AdjustRequest fileC ''warmer''))"
    by (simp add: applyAdjustmentButton_click_def handleApply_def handleApplyAdjustment_begin_def
        activePrompt_def panel_preset_def state_ABC_def initial_state_def currentImage_def
        js_index_def js_trim_def js_whitespace_def)
  have 1: "generateButton_click ?l = (?l, None)"
    using controls_disabled_while_loading [where s = ?l] l by blast
  have 2: "applyAdjustmentButton_click panel_preset ?a = (?a, None)"
    using controls_disabled_while_loading [where s = ?a and p = panel_preset] l by blast
  have 3: "snd (page_event toDataURL_AQ atob_AQ GenerateClick (?l, ?q)) = ?q"
    "snd (page_event toDataURL_AQ atob_AQ (AdjustmentApplyClick panel_preset) (?l, ?q)) = ?q"
    using controls_disabled_while_loading
        [where evs = "ready_events @ [GenerateClick]" and toDataURL = toDataURL_AQ
          and atob = atob_AQ and ev = GenerateClick]
      controls_disabled_while_loading
        [where evs = "ready_events @ [GenerateClick]" and toDataURL = toDataURL_AQ
          and atob = atob_AQ and ev = "AdjustmentApplyClick panel_preset"]
      own r l
    by simp_all
  have 4: "page_event toDataURL_AQ atob_AQ GenerateClick (?l, ?q) = (?l, ?q)"
    using 1 by (simp add: started_def)
  from g r l a 1 2 3 4 show ?thesis
    by simp
qed

section \<open>Properties of the response decoding\<close>






end
